theory Spec2Isabelle
  imports Main "HOL-Library.Sublist"
begin

section \<open>JavaScript values\<close>

text \<open>
  The library moves layout data around without ever computing with it, so values are the
  JSON-shaped part of JavaScript together with \<open>undefined\<close>. An object is a map from
  property names to values. Numbers are carried, never inspected; they are integers here.
\<close>

datatype jsval =
    Undefined
  | Null
  | Bool bool
  | Num int
  | Str string
  | Arr "jsval list"
  | Obj "string \<Rightarrow> jsval option"

text \<open>\<open>v == null\<close>, and the test made by \<open>??\<close> and \<open>?.\<close>.\<close>

fun nullish :: "jsval \<Rightarrow> bool" where
  "nullish Undefined = True"
| "nullish Null = True"
| "nullish v = False"

text \<open>\<open>a ?? b\<close>.\<close>

definition coalesce :: "jsval \<Rightarrow> jsval \<Rightarrow> jsval" where
  "coalesce a b = (if nullish a then b else a)"

text \<open>\<open>Boolean(v)\<close>, as used by \<open>filter(Boolean)\<close>.\<close>

fun truthy :: "jsval \<Rightarrow> bool" where
  "truthy Undefined = False"
| "truthy Null = False"
| "truthy (Bool b) = b"
| "truthy (Num n) = (n \<noteq> 0)"
| "truthy (Str s) = (s \<noteq> [])"
| "truthy (Arr xs) = True"
| "truthy (Obj m) = True"

text \<open>Decimal numerals, the property names of array elements and string characters.\<close>

fun string_of_nat :: "nat \<Rightarrow> string" where
  "string_of_nat n =
     (if n < 10 then [''0123456789'' ! n]
      else string_of_nat (n div 10) @ [''0123456789'' ! (n mod 10)])"

declare string_of_nat.simps [simp del]

definition indexed :: "'a list \<Rightarrow> (string \<Rightarrow> 'a option)" where
  "indexed xs = map_of (zip (map string_of_nat [0..<length xs]) xs)"

text \<open>
  The own enumerable properties of a value: what an object spread \<open>{...v}\<close>, a rest
  pattern and \<open>Object.assign\<close> copy. Arrays and strings contribute their elements
  under their indices; the other primitives, \<open>null\<close> and \<open>undefined\<close> contribute nothing.
\<close>

fun own_props :: "jsval \<Rightarrow> (string \<Rightarrow> jsval option)" where
  "own_props (Obj m) = m"
| "own_props (Arr xs) = indexed xs"
| "own_props (Str s) = indexed (map (\<lambda>c. Str [c]) s)"
| "own_props v = Map.empty"

text \<open>
  Reading \<open>v[k]\<close> from a value that is neither \<open>null\<close> nor \<open>undefined\<close>. It is only
  ever applied to the key \<open>props\<close> and to layout keys, which start with \<open>__layout:\<close>:
  neither is an array index, \<open>length\<close> or a name found on a prototype, so the read finds
  an own property of an object or nothing.
\<close>

fun member :: "jsval \<Rightarrow> string \<Rightarrow> jsval" where
  "member (Obj m) k = (case m k of Some v \<Rightarrow> v | None \<Rightarrow> Undefined)"
| "member v k = Undefined"

text \<open>\<open>v?.[k]\<close>.\<close>

definition opt_member :: "jsval \<Rightarrow> string \<Rightarrow> jsval" where
  "opt_member v k = (if nullish v then Undefined else member v k)"

section \<open>Errors\<close>

text \<open>
  \<open>createError\<close> belongs to the module \<open>./exceptions\<close>; the error it builds is
  represented by the arguments of the call, a code and the options object. Reading a
  property of \<open>null\<close> or \<open>undefined\<close> raises a \<open>TypeError\<close>, and evaluating an
  identifier that nothing declares raises a \<open>ReferenceError\<close>. \<open>InvalidRef\<close> is the
  error React raises for an element of a function component whose \<open>ref\<close> is a string, a
  number or a boolean. Anything thrown or rejected by a function the application
  supplies is \<open>Thrown\<close>.
\<close>

datatype error_code =
    LAYOUT_PROVIDER_NOT_IMPLEMENTED
  | DATA_UNAVAILABLE
  | COMBINED_LAYOUT_NAME_CONFLICT

record error_options =
  errorContext :: string
  message :: string
  location :: "string option"
  layoutName :: "string option"

datatype err =
    Created error_code error_options
  | TypeError
  | ReferenceError
  | InvalidRef
  | Thrown jsval

text \<open>\<open>v[k]\<close> where \<open>v\<close> may be \<open>null\<close> or \<open>undefined\<close>.\<close>

definition get_member :: "jsval \<Rightarrow> string \<Rightarrow> err + jsval" where
  "get_member v k = (if nullish v then Inl TypeError else Inr (member v k))"

section \<open>Elements, contexts and rendering\<close>

text \<open>
  The two React contexts of the module and the router's path make up what a hook can
  read at a place in the tree. Both contexts are private to the module, so the data
  context always holds an object literal built here, or its default \<open>{}\<close>.
\<close>

record env =
  LayoutProviderContext :: bool
  LayoutDataContext :: "string \<Rightarrow> jsval option"
  pathname :: string

definition default_env :: "string \<Rightarrow> env" where
  "default_env path =
     \<lparr>LayoutProviderContext = False, LayoutDataContext = Map.empty, pathname = path\<rparr>"

text \<open>
  An element is a piece of text, a host element, a fragment, one of the two context
  providers, or a component applied to its props, which runs when it is rendered: it
  reads the contexts of its place and returns an element or throws.
\<close>

datatype element =
    Text string
  | Host string "element list"
  | Fragment "element list"
  | FlagProvider bool element
  | DataProvider "string \<Rightarrow> jsval option" element
  | Comp "env \<Rightarrow> err + element"

type_synonym component = "env \<Rightarrow> jsval \<Rightarrow> err + element"

text \<open>
  \<open><C {...props} />\<close>, an element made inside a function component. React keeps
  \<open>key\<close> and \<open>ref\<close> for itself. When the element is rendered, a \<open>ref\<close> that is a
  string, a number or a boolean makes React throw before the component runs; otherwise
  the component receives a fresh object with the remaining own properties.
\<close>

definition invalid_ref :: "jsval \<Rightarrow> bool" where
  "invalid_ref props =
     (case own_props props ''ref'' of
        Some (Str s) \<Rightarrow> True
      | Some (Num n) \<Rightarrow> True
      | Some (Bool b) \<Rightarrow> True
      | _ \<Rightarrow> False)"

definition jsx :: "component \<Rightarrow> jsval \<Rightarrow> element" where
  "jsx C props =
     Comp (\<lambda>e. if invalid_ref props then Inl InvalidRef
               else C e (Obj ((own_props props)(''key'' := None, ''ref'' := None))))"

datatype dom = DText string | DNode string "dom list"

fun render_children :: "(env \<Rightarrow> err + dom list) list \<Rightarrow> env \<Rightarrow> err + dom list" where
  "render_children [] env = Inr []"
| "render_children (r # rs) env =
     (case r env of
        Inl e \<Rightarrow> Inl e
      | Inr d \<Rightarrow> (case render_children rs env of Inl e \<Rightarrow> Inl e | Inr ds \<Rightarrow> Inr (d @ ds)))"

text \<open>
  Rendering walks the tree from the root. A provider changes its context for its
  subtree only; a fragment adds no node of its own; the first error ends the render.
\<close>

primrec render :: "element \<Rightarrow> env \<Rightarrow> err + dom list" where
  "render (Text s) = (\<lambda>env. Inr [DText s])"
| "render (Host t cs) =
     (\<lambda>env. case render_children (map render cs) env of
               Inl e \<Rightarrow> Inl e
             | Inr ds \<Rightarrow> Inr [DNode t ds])"
| "render (Fragment cs) = render_children (map render cs)"
| "render (FlagProvider b c) = (\<lambda>env. render c (env\<lparr>LayoutProviderContext := b\<rparr>))"
| "render (DataProvider v c) = (\<lambda>env. render c (env\<lparr>LayoutDataContext := v\<rparr>))"
| "render (Comp f) =
     (\<lambda>env. case map_sum id render (f env) of Inl e \<Rightarrow> Inl e | Inr r \<Rightarrow> r env)"

section \<open>createLayout\<close>

text \<open>
  \<open>CreateLayoutOptions\<close>: the name, the optional \<open>getLayout(page, data)\<close> and the
  optional \<open>getData(ctx)\<close>. \<open>getLayout\<close> is called while an element is being built,
  so it may use hooks and may throw; \<open>getData\<close> is asynchronous and resolves or
  rejects. The fetch context \<open>'c\<close> is whatever the host passes.
\<close>

record 'c CreateLayoutOptions =
  name :: string
  getLayout :: "(env \<Rightarrow> element \<Rightarrow> jsval \<Rightarrow> err + element) option"
  getData :: "('c \<Rightarrow> err + jsval) option"

text \<open>A page component, with the \<open>getLayout\<close> that \<open>wrapPage\<close> attaches to it.\<close>

record PageWithLayout =
  component :: component
  page_getLayout :: "(env \<Rightarrow> component \<Rightarrow> jsval \<Rightarrow> err + element) option"

text \<open>
  A layout object: the options under \<open>__layoutOptions\<close> and the four members.
  \<open>useData\<close> is optional because \<open>combineLayouts\<close> deletes it.
\<close>

record 'c Layout =
  layoutOptions :: "'c CreateLayoutOptions"
  wrapPage :: "component \<Rightarrow> PageWithLayout"
  wrapGetStaticProps :: "('c \<Rightarrow> err + jsval) option \<Rightarrow> 'c \<Rightarrow> err + jsval"
  wrapGetServerSideProps :: "('c \<Rightarrow> err + jsval) option \<Rightarrow> 'c \<Rightarrow> err + jsval"
  useData :: "(env \<Rightarrow> err + jsval) option"

text \<open>\<open>`__layout:${options.name}`\<close>\<close>

definition layoutKey :: "string \<Rightarrow> string" where
  "layoutKey n = ''__layout:'' @ n"

text \<open>\<open>options.name.startsWith('__combined')\<close>\<close>

definition isCombinedLayout :: "string \<Rightarrow> bool" where
  "isCombinedLayout n = prefix ''__combined'' n"

definition provider_missing_message :: string where
  "provider_missing_message =
     ''Before layouts can be utilized, you must wrap your Next.js `_app` with <LayoutProvider>''"

definition data_unavailable_message :: string where
  "data_unavailable_message =
     ''Data for this layout unavailable for one of these reasons:'' @ [CHR 0x0A] @
     ''  - getData() is not defined for this layout.'' @ [CHR 0x0A] @
     ''  - This page was not wrapped with wrapPage().'' @ [CHR 0x0A] @
     ''  - getStaticProps() or getServerSideProps() is not wrapped for this layout.'' @ [CHR 0x0A] @
     ''  - useData() may have been called within getLayout().'' @ [CHR 0x0A] @
     ''    Use the second `data` parameter given to getLayout() instead.''"

text \<open>
  The callback of \<open>useMemo\<close> in \<open>getLayout\<close>: the data context published for the
  subtree, from the enclosing context and this layout's slice of the page props. This is
  the value on a first render; on a later render \<open>useMemo\<close> keeps the earlier value
  while the three dependencies are unchanged.
\<close>

definition layout_ctx ::
  "'c CreateLayoutOptions \<Rightarrow> (string \<Rightarrow> jsval option) \<Rightarrow> jsval \<Rightarrow> (string \<Rightarrow> jsval option)" where
  "layout_ctx options currCtx layoutProps =
     (if isCombinedLayout (name options)
      then currCtx ++ own_props layoutProps
      else currCtx(layoutKey (name options) \<mapsto> layoutProps))"

text \<open>
  The \<open>getLayout(Component, pageProps)\<close> attached to a wrapped page. Destructuring
  \<open>pageProps\<close> throws when it is \<open>null\<close> or \<open>undefined\<close>.
\<close>

definition layout_getLayout ::
  "'c CreateLayoutOptions \<Rightarrow> env \<Rightarrow> component \<Rightarrow> jsval \<Rightarrow> err + element" where
  "layout_getLayout options env Component pageProps =
     (if nullish pageProps then Inl TypeError
      else
        (let layoutProps = member pageProps (layoutKey (name options));
             rest = Obj ((own_props pageProps)(layoutKey (name options) := None));
             currCtx = LayoutDataContext env;
             ctx = layout_ctx options currCtx layoutProps
         in case getLayout options of
              Some g \<Rightarrow>
                (case g env (jsx Component rest) layoutProps of
                   Inl e \<Rightarrow> Inl e
                 | Inr wrapped \<Rightarrow> Inr (DataProvider ctx wrapped))
            | None \<Rightarrow> Inr (DataProvider ctx (jsx Component rest))))"

definition layout_wrapPage :: "'c CreateLayoutOptions \<Rightarrow> component \<Rightarrow> PageWithLayout" where
  "layout_wrapPage options Page =
     \<lparr>component =
        (\<lambda>env props.
           if \<not> LayoutProviderContext env
           then Inl (Created LAYOUT_PROVIDER_NOT_IMPLEMENTED
                  \<lparr>errorContext = ''wrapPage'', message = provider_missing_message,
                   location = None, layoutName = None\<rparr>)
           else Inr (jsx Page props)),
      page_getLayout = Some (layout_getLayout options)\<rparr>"

definition defaultGetProps :: "'c \<Rightarrow> err + jsval" where
  "defaultGetProps ctx = Inr (Obj [''props'' \<mapsto> Obj Map.empty])"

text \<open>\<open>await options.getData?.(ctx)\<close>\<close>

definition await_getData :: "'c CreateLayoutOptions \<Rightarrow> 'c \<Rightarrow> err + jsval" where
  "await_getData options ctx = (case getData options of None \<Rightarrow> Inr Undefined | Some g \<Rightarrow> g ctx)"

definition layout_wrapGetStaticProps ::
  "'c CreateLayoutOptions \<Rightarrow> ('c \<Rightarrow> err + jsval) option \<Rightarrow> 'c \<Rightarrow> err + jsval" where
  "layout_wrapGetStaticProps options wrapped ctx =
     (let wrappedGetStaticProps = (case wrapped of None \<Rightarrow> defaultGetProps | Some f \<Rightarrow> f)
      in case wrappedGetStaticProps ctx of
           Inl e \<Rightarrow> Inl e
         | Inr r \<Rightarrow>
             (let staticProps = coalesce r (Obj Map.empty)
              in case await_getData options ctx of
                   Inl e \<Rightarrow> Inl e
                 | Inr layoutStaticProps \<Rightarrow>
                     Inr (Obj ((own_props staticProps)(''props'' \<mapsto>
                       Obj ((own_props (coalesce (member staticProps ''props'') (Obj Map.empty)))
                              (layoutKey (name options) \<mapsto>
                                 coalesce
                                   (coalesce (opt_member layoutStaticProps (layoutKey (name options)))
                                      layoutStaticProps)
                                   Null)))))))"

definition layout_wrapGetServerSideProps ::
  "'c CreateLayoutOptions \<Rightarrow> ('c \<Rightarrow> err + jsval) option \<Rightarrow> 'c \<Rightarrow> err + jsval" where
  "layout_wrapGetServerSideProps options wrapped ctx =
     (let wrappedGetServerSideProps = (case wrapped of None \<Rightarrow> defaultGetProps | Some f \<Rightarrow> f)
      in case wrappedGetServerSideProps ctx of
           Inl e \<Rightarrow> Inl e
         | Inr r \<Rightarrow>
             (let serverSideProps = coalesce r (Obj Map.empty)
              in case await_getData options ctx of
                   Inl e \<Rightarrow> Inl e
                 | Inr layoutStaticProps \<Rightarrow>
                     Inr (Obj ((own_props serverSideProps)(''props'' \<mapsto>
                       Obj ((own_props (coalesce (member serverSideProps ''props'') (Obj Map.empty)))
                              (layoutKey (name options) \<mapsto>
                                 coalesce
                                   (coalesce (opt_member layoutStaticProps (layoutKey (name options)))
                                      layoutStaticProps)
                                   Null)))))))"

definition layout_useData :: "'c CreateLayoutOptions \<Rightarrow> env \<Rightarrow> err + jsval" where
  "layout_useData options env =
     (let ctx = LayoutDataContext env;
          slice = (case ctx (layoutKey (name options)) of Some v \<Rightarrow> v | None \<Rightarrow> Undefined)
      in if nullish slice
         then Inl (Created DATA_UNAVAILABLE
                \<lparr>errorContext = ''useData'', message = data_unavailable_message,
                 location = Some (pathname env), layoutName = Some (name options)\<rparr>)
         else Inr slice)"

text \<open>
  The identifier \<open>LayoutPageContext\<close>, which the object literal of \<open>createLayout\<close>
  evaluates for \<open>__layoutOptions\<close>. The module declares \<open>LayoutProviderContext\<close> and
  \<open>LayoutDataContext\<close> and imports neither this name nor anything that could bind it,
  so evaluating it throws.
\<close>

definition LayoutPageContext :: "err + jsval" where
  "LayoutPageContext = Inl ReferenceError"

text \<open>
  The object literal that \<open>createLayout\<close> returns, with the closures above as its
  members. The value of \<open>LayoutPageContext\<close> would be one more entry of
  \<open>__layoutOptions\<close>, which nothing reads.
\<close>

definition layout_literal :: "'c CreateLayoutOptions \<Rightarrow> 'c Layout" where
  "layout_literal options =
     \<lparr>layoutOptions = options,
      wrapPage = layout_wrapPage options,
      wrapGetStaticProps = layout_wrapGetStaticProps options,
      wrapGetServerSideProps = layout_wrapGetServerSideProps options,
      useData = Some (layout_useData options)\<rparr>"

text \<open>
  \<open>createLayout\<close>: \<open>__layoutOptions\<close> is the first entry of the literal, so the
  identifier is evaluated before anything is returned.
\<close>

definition createLayout :: "'c CreateLayoutOptions \<Rightarrow> err + 'c Layout" where
  "createLayout options =
     (case LayoutPageContext of
        Inl e \<Rightarrow> Inl e
      | Inr v \<Rightarrow> Inr (layout_literal options))"

definition getOptionsFromLayout :: "'c Layout \<Rightarrow> 'c CreateLayoutOptions" where
  "getOptionsFromLayout layout = layoutOptions layout"

section \<open>combineLayouts\<close>

text \<open>\<open>Array.prototype.join\<close> on an array of strings.\<close>

fun join :: "string \<Rightarrow> string list \<Rightarrow> string" where
  "join sep [] = []"
| "join sep [x] = x"
| "join sep (x # y # ys) = x @ sep @ join sep (y # ys)"

text \<open>
  The name check counts the names in \<open>uniq\<close>, a record that starts as \<open>{}\<close>. It is
  an ordinary object, kept here as the list of its own properties in creation order.
  A cell holds a number, or a string that is not a numeral.
\<close>

datatype tally = Tally nat | NonNumeric

text \<open>
  The members every ordinary object inherits from \<open>Object.prototype\<close>. Reading
  \<open>a[b.name]\<close> for one of these names, while \<open>a\<close> has no own property of that name,
  finds the inherited function (for \<open>__proto__\<close>, the prototype object), which is truthy.
\<close>

definition Object_prototype_names :: "string list" where
  "Object_prototype_names =
     [''constructor'', ''hasOwnProperty'', ''isPrototypeOf'', ''propertyIsEnumerable'',
      ''toLocaleString'', ''toString'', ''valueOf'', ''__defineGetter__'',
      ''__defineSetter__'', ''__lookupGetter__'', ''__lookupSetter__'', ''__proto__'']"

fun assign_prop :: "(string \<times> 'a) list \<Rightarrow> string \<Rightarrow> 'a \<Rightarrow> (string \<times> 'a) list" where
  "assign_prop [] k v = [(k, v)]"
| "assign_prop ((k', v') # ps) k v =
     (if k' = k then (k, v) # ps else (k', v') # assign_prop ps k v)"

text \<open>
  The callback of \<open>reduce\<close>: \<open>a[b.name] = (a[b.name] || 0) + b.count\<close> with
  \<open>b.count = 1\<close>. A missing cell reads as \<open>undefined\<close> and counts from \<open>0\<close>. Adding
  \<open>1\<close> to an inherited function, or to the string this gives, concatenates: the cell
  becomes a string such as \<open>function Object() { [native code] }1\<close>. Assigning a string
  to \<open>__proto__\<close> goes to the inherited setter, which ignores it.
\<close>

definition count_step :: "(string \<times> tally) list \<Rightarrow> string \<Rightarrow> (string \<times> tally) list" where
  "count_step a n =
     (let current =
            (case map_of a n of
               Some t \<Rightarrow> t
             | None \<Rightarrow> if n \<in> set Object_prototype_names then NonNumeric else Tally 0);
          updated = (case current of Tally c \<Rightarrow> Tally (c + 1) | NonNumeric \<Rightarrow> NonNumeric)
      in if n = ''__proto__'' then a else assign_prop a n updated)"

text \<open>\<open>uniq[a] > 1\<close>; a string that is not a numeral compares as \<open>NaN\<close>.\<close>

fun exceeds_one :: "tally \<Rightarrow> bool" where
  "exceeds_one (Tally c) = (1 < c)"
| "exceeds_one NonNumeric = False"

text \<open>
  \<open>Object.keys\<close>: the names that are array indices first, in ascending order, then the
  other names in the order of their creation.
\<close>

definition nat_of_string :: "string \<Rightarrow> nat" where
  "nat_of_string s = foldl (\<lambda>n c. 10 * n + (of_char c - 48)) 0 s"

definition is_array_index :: "string \<Rightarrow> bool" where
  "is_array_index k = (string_of_nat (nat_of_string k) = k \<and> nat_of_string k < 4294967295)"

definition Object_keys :: "(string \<times> 'a) list \<Rightarrow> string list" where
  "Object_keys ps =
     sort_key nat_of_string (filter is_array_index (map fst ps)) @
     filter (\<lambda>k. \<not> is_array_index k) (map fst ps)"

text \<open>The record \<open>uniq\<close> and the list \<open>duplicates\<close> computed from the names.\<close>

definition uniq :: "string list \<Rightarrow> (string \<times> tally) list" where
  "uniq layoutNames = foldl count_step [] layoutNames"

definition duplicates :: "string list \<Rightarrow> string list" where
  "duplicates layoutNames =
     filter (\<lambda>a. case map_of (uniq layoutNames) a of Some t \<Rightarrow> exceeds_one t | None \<Rightarrow> False)
       (Object_keys (uniq layoutNames))"

definition name_conflict_message :: string where
  "name_conflict_message =
     ''Layouts must have unique `name` values to be combinable. Conflicting name(s) found: ''"

text \<open>
  The callback of \<open>reduceRight\<close> in the combined \<open>getLayout\<close>. \<open>data[layoutKey]\<close>
  is evaluated only for a layout that has a \<open>getLayout\<close>, and throws when \<open>data\<close> is
  \<open>null\<close> or \<open>undefined\<close>.
\<close>

definition wrap_step :: "env \<Rightarrow> jsval \<Rightarrow> 'c Layout \<Rightarrow> err + element \<Rightarrow> err + element" where
  "wrap_step env data l acc =
     (case acc of
        Inl e \<Rightarrow> Inl e
      | Inr element \<Rightarrow>
          (let layoutOptions = getOptionsFromLayout l
           in case getLayout layoutOptions of
                Some g \<Rightarrow>
                  (case get_member data (layoutKey (name layoutOptions)) of
                     Inl e \<Rightarrow> Inl e
                   | Inr slice \<Rightarrow>
                       (case g env element slice of
                          Inl e \<Rightarrow> Inl e
                        | Inr wrapped \<Rightarrow> Inr (Fragment [wrapped])))
              | None \<Rightarrow> Inr (Fragment [element])))"

text \<open>\<open>layouts.reduceRight(..., <>{page}</>)\<close>: the last layout is applied first.\<close>

definition pagesCombined :: "'c Layout list \<Rightarrow> env \<Rightarrow> element \<Rightarrow> jsval \<Rightarrow> err + element" where
  "pagesCombined layouts env page data =
     foldr (wrap_step env data) layouts (Inr (Fragment [page]))"

definition combined_getLayout :: "'c Layout list \<Rightarrow> env \<Rightarrow> element \<Rightarrow> jsval \<Rightarrow> err + element" where
  "combined_getLayout layouts env page data =
     (case pagesCombined layouts env page data of
        Inl e \<Rightarrow> Inl e
      | Inr combined \<Rightarrow> Inr (Fragment [combined]))"

text \<open>
  \<open>Promise.all\<close> over promises whose outcomes are given. The promises settle in some
  order the code does not control: \<open>order\<close> lists indices in the order of settling,
  and the promises it leaves out settle afterwards by index. A fulfilled promise puts
  its value into its own slot; the first rejection rejects the whole.
\<close>

fun settle :: "(err + 'a) list \<Rightarrow> nat list \<Rightarrow> 'a option list \<Rightarrow> err + 'a option list" where
  "settle outcomes [] slots = Inr slots"
| "settle outcomes (i # order) slots =
     (if i < length outcomes
      then (case outcomes ! i of
              Inl e \<Rightarrow> Inl e
            | Inr v \<Rightarrow> settle outcomes order (slots[i := Some v]))
      else settle outcomes order slots)"

definition Promise_all :: "nat list \<Rightarrow> (err + 'a) list \<Rightarrow> err + 'a list" where
  "Promise_all order outcomes =
     (case settle outcomes (order @ [0..<length outcomes]) (replicate (length outcomes) None) of
        Inl e \<Rightarrow> Inl e
      | Inr slots \<Rightarrow> Inr (List.map_filter (\<lambda>s. s) slots))"

text \<open>\<open>Object.assign(target, ...sources)\<close> on a fresh target.\<close>

definition Object_assign :: "(string \<Rightarrow> jsval option) \<Rightarrow> jsval list \<Rightarrow> jsval" where
  "Object_assign target sources = Obj (foldl (\<lambda>acc s. acc ++ own_props s) target sources)"

text \<open>The asynchronous callback of \<open>layouts.map\<close> in the combined \<open>getData\<close>.\<close>

definition fetch_one :: "'c \<Rightarrow> 'c Layout \<Rightarrow> err + jsval" where
  "fetch_one ctx l =
     (let layoutOptions = getOptionsFromLayout l
      in case await_getData layoutOptions ctx of
           Inl e \<Rightarrow> Inl e
         | Inr v \<Rightarrow> Inr (Obj [layoutKey (name layoutOptions) \<mapsto> coalesce v Null]))"

text \<open>
  The combined \<open>getData\<close>; \<open>sched ctx\<close> is the order in which the fetches of this
  call settle.
\<close>

definition combined_getData :: "('c \<Rightarrow> nat list) \<Rightarrow> 'c Layout list \<Rightarrow> 'c \<Rightarrow> err + jsval" where
  "combined_getData sched layouts ctx =
     (case Promise_all (sched ctx) (map (fetch_one ctx) layouts) of
        Inl e \<Rightarrow> Inl e
      | Inr results \<Rightarrow> Inr (Object_assign Map.empty (filter truthy results)))"

text \<open>The options that \<open>combineLayouts\<close> passes to \<open>createLayout\<close>.\<close>

definition combined_options :: "('c \<Rightarrow> nat list) \<Rightarrow> 'c Layout list \<Rightarrow> 'c CreateLayoutOptions" where
  "combined_options sched layouts =
     \<lparr>name = ''__combined('' @ join '';'' (map (\<lambda>l. name (getOptionsFromLayout l)) layouts) @ '')'',
      getLayout = Some (combined_getLayout layouts),
      getData = Some (combined_getData sched layouts)\<rparr>"

definition combineLayouts :: "('c \<Rightarrow> nat list) \<Rightarrow> 'c Layout list \<Rightarrow> err + 'c Layout" where
  "combineLayouts sched layouts =
     (let layoutNames = map (\<lambda>l. name (getOptionsFromLayout l)) layouts
      in if card (set layoutNames) \<noteq> length layoutNames
         then
           Inl (Created COMBINED_LAYOUT_NAME_CONFLICT
                 \<lparr>errorContext = ''combineLayouts'',
                  message = name_conflict_message @ join '', '' (duplicates layoutNames),
                  location = None, layoutName = None\<rparr>)
         else
           (case createLayout (combined_options sched layouts) of
              Inl e \<Rightarrow> Inl e
            | Inr result \<Rightarrow> Inr (result\<lparr>useData := None\<rparr>)))"

section \<open>LayoutProvider\<close>

text \<open>
  \<open>RenderLayout\<close> uses the \<open>getLayout\<close> attached to the page, or renders the page
  with its props. \<open>LayoutProvider\<close> sets the provider flag around it.
\<close>

definition RenderLayout :: "PageWithLayout \<Rightarrow> jsval \<Rightarrow> env \<Rightarrow> err + element" where
  "RenderLayout Component pageProps env =
     (let dispatch = (case page_getLayout Component of
                        Some g \<Rightarrow> g
                      | None \<Rightarrow> (\<lambda>e C P. Inr (jsx C P)))
      in case dispatch env (component Component) pageProps of
           Inl e \<Rightarrow> Inl e
         | Inr el \<Rightarrow> Inr (Fragment [el]))"

definition LayoutProvider :: "PageWithLayout \<Rightarrow> jsval \<Rightarrow> element" where
  "LayoutProvider Component pageProps =
     FlagProvider True (Comp (RenderLayout Component pageProps))"

section \<open>Sample inputs\<close>

text \<open>A \<open>getData\<close>, or a wrapped fetch function, that resolves to a given value.\<close>

definition resolve_to :: "jsval \<Rightarrow> 'c \<Rightarrow> err + jsval" where
  "resolve_to v ctx = Inr v"

text \<open>
  A layout object as a caller can write it and pass it to \<open>combineLayouts\<close>: it
  carries the options under \<open>__layoutOptions\<close>, which is all that \<open>combineLayouts\<close>
  reads, and the closures for these options as its members.
\<close>

definition layout_object :: "'c CreateLayoutOptions \<Rightarrow> 'c Layout" where
  "layout_object options =
     \<lparr>layoutOptions = options,
      wrapPage = layout_wrapPage options,
      wrapGetStaticProps = layout_wrapGetStaticProps options,
      wrapGetServerSideProps = layout_wrapGetServerSideProps options,
      useData = None\<rparr>"

text \<open>A schedule that names no fetch: the fetches settle by index.\<close>

definition by_index :: "'c \<Rightarrow> nat list" where
  "by_index ctx = []"

text \<open>A schedule in which the fetches settle from the last to the first.\<close>

definition last_first :: "nat \<Rightarrow> 'c \<Rightarrow> nat list" where
  "last_first n ctx = rev [0..<n]"

text \<open>
  A \<open>getLayout\<close> that puts the page into a host element, after a title when its data
  is a string.
\<close>

definition host_wrapper :: "string \<Rightarrow> env \<Rightarrow> element \<Rightarrow> jsval \<Rightarrow> err + element" where
  "host_wrapper tag env page data =
     Inr (Host tag ((case data of Str s \<Rightarrow> [Text s] | _ \<Rightarrow> []) @ [page]))"

text \<open>A page that renders a text.\<close>

definition text_page :: "string \<Rightarrow> component" where
  "text_page s env props = Inr (Text s)"

text \<open>A page that calls a hook, such as the \<open>useData\<close> of a layout, and renders a text.\<close>

definition page_using_data :: "(env \<Rightarrow> err + jsval) \<Rightarrow> component" where
  "page_using_data hook env props =
     (case hook env of Inl e \<Rightarrow> Inl e | Inr v \<Rightarrow> Inr (Text ''data''))"

section \<open>createLayout as written\<close>

text \<open>
  Every call of \<open>createLayout\<close> throws a \<open>ReferenceError\<close>, and so does
  \<open>combineLayouts\<close> once the names have passed its check. The module as written
  therefore hands out no layout object. The statements of the following sections are
  about the closures themselves, the functions of lines 61 to 151 and 209 to 229 taken
  with their \<open>options\<close>, and about layout objects that a caller passes in.
\<close>

lemma createLayout_throws: "createLayout options = Inl ReferenceError"
  by (simp add: createLayout_def LayoutPageContext_def)

lemma names_distinct_iff:
  "(card (set ns) \<noteq> length ns) = (\<not> distinct ns)"
  using card_distinct distinct_card by blast

lemma combineLayouts_distinct:
  assumes "distinct (map (\<lambda>l. name (getOptionsFromLayout l)) layouts)"
  shows "combineLayouts sched layouts = Inl ReferenceError"
  using assms by (simp add: combineLayouts_def names_distinct_iff Let_def createLayout_throws)

lemma combineLayouts_conflict:
  assumes "\<not> distinct (map (\<lambda>l. name (getOptionsFromLayout l)) layouts)"
  shows "combineLayouts sched layouts =
           Inl (Created COMBINED_LAYOUT_NAME_CONFLICT
             \<lparr>errorContext = ''combineLayouts'',
              message = name_conflict_message @
                join '', '' (duplicates (map (\<lambda>l. name (getOptionsFromLayout l)) layouts)),
              location = None, layoutName = None\<rparr>)"
  using assms by (simp add: combineLayouts_def names_distinct_iff Let_def)

section \<open>The fetch wrappers\<close>

lemma wrapGetStaticProps_result:
  assumes "(case wrapped of None \<Rightarrow> defaultGetProps | Some f \<Rightarrow> f) ctx = Inr r"
    and "await_getData options ctx = Inr d"
  shows "layout_wrapGetStaticProps options wrapped ctx =
           Inr (Obj ((own_props (coalesce r (Obj Map.empty)))(''props'' \<mapsto>
                  Obj ((own_props (coalesce (member (coalesce r (Obj Map.empty)) ''props'') (Obj Map.empty)))
                         (layoutKey (name options) \<mapsto>
                            coalesce (coalesce (opt_member d (layoutKey (name options))) d) Null)))))"
  using assms by (simp add: layout_wrapGetStaticProps_def Let_def)

lemma wrapGetServerSideProps_eq:
  "layout_wrapGetServerSideProps options wrapped ctx = layout_wrapGetStaticProps options wrapped ctx"
  by (simp add: layout_wrapGetServerSideProps_def layout_wrapGetStaticProps_def)

lemma coalesce_plain:
  "\<not> nullish d \<Longrightarrow> nullish (member d k) \<Longrightarrow> coalesce (coalesce (opt_member d k) d) Null = d"
  by (simp add: coalesce_def opt_member_def)

lemma coalesce_absent: "coalesce (coalesce (opt_member Undefined k) Undefined) Null = Null"
  by (simp add: coalesce_def opt_member_def)

text \<open>
  C1, as stated, fails: the entry under the layout's key is not always the value
  \<open>getData\<close> resolved to. With the options of a layout \<open>a\<close> whose \<open>getData\<close>
  resolves to the object \<open>{"__layout:a": 1}\<close>, the function that
  \<open>wrapGetStaticProps\<close> returns gives the entry \<open>1\<close>, the member of that object under
  the layout's own key, not the object.
\<close>

theorem wrapFetch_entry_counterexample:
  "await_getData \<lparr>name = ''a'', getLayout = None,
      getData = Some (resolve_to (Obj [''__layout:a'' \<mapsto> Num 1]))\<rparr> ()
     = Inr (Obj [''__layout:a'' \<mapsto> Num 1])
   \<and> layout_wrapGetStaticProps \<lparr>name = ''a'', getLayout = None,
      getData = Some (resolve_to (Obj [''__layout:a'' \<mapsto> Num 1]))\<rparr> None ()
     = Inr (Obj [''props'' \<mapsto> Obj [''__layout:a'' \<mapsto> Num 1]])
   \<and> Num 1 \<noteq> Obj [''__layout:a'' \<mapsto> Num 1]"
  by (simp add: layout_wrapGetStaticProps_def await_getData_def resolve_to_def
      defaultGetProps_def layoutKey_def coalesce_def opt_member_def)

text \<open>
  C1, amended, for the closures \<open>wrapGetStaticProps\<close> and \<open>wrapGetServerSideProps\<close>
  of any options. When the wrapped fetch function (or the default) resolves to \<open>r\<close> and
  the layout's \<open>getData\<close> resolves to \<open>d\<close> (\<open>undefined\<close> when there is none), both
  resolve to one and the same object, whose \<open>props\<close> is an object with an entry under
  the layout's key. That entry is \<open>d[key] ?? d ?? null\<close>: the member of \<open>d\<close> under the
  layout's own key when \<open>d\<close> has one that is neither \<open>null\<close> nor \<open>undefined\<close>, else
  \<open>d\<close>, else \<open>null\<close>. So it is \<open>d\<close> itself whenever \<open>d\<close> is neither \<open>null\<close> nor
  \<open>undefined\<close> and has no such member, and \<open>null\<close> when the layout has no
  \<open>getData\<close>. Every other entry of \<open>props\<close> is the one of the base result's
  \<open>props\<close>, and every field of the result other than \<open>props\<close> is the one of the base
  result. That \<open>createLayout\<close> throws before it returns the closures is left aside.
\<close>

theorem wrapFetch_props:
  assumes "(case wrapped of None \<Rightarrow> defaultGetProps | Some f \<Rightarrow> f) ctx = Inr r"
    and "await_getData options ctx = Inr d"
  shows "\<exists>top props.
           layout_wrapGetStaticProps options wrapped ctx = Inr (Obj top) \<and>
           layout_wrapGetServerSideProps options wrapped ctx = Inr (Obj top) \<and>
           top ''props'' = Some (Obj props) \<and>
           props (layoutKey (name options)) =
             Some (coalesce (coalesce (opt_member d (layoutKey (name options))) d) Null) \<and>
           (\<not> nullish d \<and> nullish (member d (layoutKey (name options)))
              \<longrightarrow> props (layoutKey (name options)) = Some d) \<and>
           (getData options = None \<longrightarrow> props (layoutKey (name options)) = Some Null) \<and>
           (\<forall>k. k \<noteq> layoutKey (name options) \<longrightarrow>
              props k = own_props (coalesce (member (coalesce r (Obj Map.empty)) ''props'') (Obj Map.empty)) k) \<and>
           (\<forall>k. k \<noteq> ''props'' \<longrightarrow> top k = own_props (coalesce r (Obj Map.empty)) k)"
proof -
  let ?key = "layoutKey (name options)"
  let ?base = "coalesce r (Obj Map.empty)"
  let ?entry = "coalesce (coalesce (opt_member d ?key) d) Null"
  let ?props = "(own_props (coalesce (member ?base ''props'') (Obj Map.empty)))(?key \<mapsto> ?entry)"
  let ?top = "(own_props ?base)(''props'' \<mapsto> Obj ?props)"
  have static: "layout_wrapGetStaticProps options wrapped ctx = Inr (Obj ?top)"
    using wrapGetStaticProps_result [OF assms] by simp
  have server: "layout_wrapGetServerSideProps options wrapped ctx = Inr (Obj ?top)"
    using wrapGetStaticProps_result [OF assms]
    by (simp add: wrapGetServerSideProps_eq)
  have plain: "\<not> nullish d \<and> nullish (member d ?key) \<longrightarrow> ?props ?key = Some d"
    by (simp add: coalesce_plain)
  have absent: "getData options = None \<longrightarrow> ?props ?key = Some Null"
    using assms(2) by (auto simp: await_getData_def coalesce_absent)
  show ?thesis
    apply (rule exI [of _ ?top], rule exI [of _ ?props])
    using static server plain absent by simp
qed

theorem wrapFetch_props_witness:
  "(case Some (resolve_to (Obj [''title'' \<mapsto> Str ''t'', ''props'' \<mapsto> Obj [''x'' \<mapsto> Num 3]]))
      of None \<Rightarrow> defaultGetProps | Some f \<Rightarrow> f) ()
     = Inr (Obj [''title'' \<mapsto> Str ''t'', ''props'' \<mapsto> Obj [''x'' \<mapsto> Num 3]])
   \<and> await_getData \<lparr>name = ''a'', getLayout = None, getData = Some (resolve_to (Num 7))\<rparr> ()
     = Inr (Num 7)
   \<and> (\<exists>top props.
       layout_wrapGetStaticProps
         \<lparr>name = ''a'', getLayout = None, getData = Some (resolve_to (Num 7))\<rparr>
         (Some (resolve_to (Obj [''title'' \<mapsto> Str ''t'', ''props'' \<mapsto> Obj [''x'' \<mapsto> Num 3]]))) ()
         = Inr (Obj top) \<and>
       top ''props'' = Some (Obj props) \<and>
       props ''__layout:a'' = Some (Num 7) \<and>
       props ''x'' = Some (Num 3) \<and>
       top ''title'' = Some (Str ''t''))"
proof -
  have a: "(case Some (resolve_to (Obj [''title'' \<mapsto> Str ''t'', ''props'' \<mapsto> Obj [''x'' \<mapsto> Num 3]]))
              of None \<Rightarrow> defaultGetProps | Some f \<Rightarrow> f) ()
           = Inr (Obj [''title'' \<mapsto> Str ''t'', ''props'' \<mapsto> Obj [''x'' \<mapsto> Num 3]])"
    by (simp add: resolve_to_def)
  have b: "await_getData \<lparr>name = ''a'', getLayout = None, getData = Some (resolve_to (Num 7))\<rparr> ()
           = Inr (Num 7)"
    by (simp add: await_getData_def resolve_to_def)
  show ?thesis
    using a b wrapFetch_props [OF a b]
    by (auto simp: layoutKey_def coalesce_def opt_member_def)
qed

text \<open>
  C9. For all options, every wrapped fetch function (or none) and every fetch context,
  the function that \<open>wrapGetStaticProps\<close> returns and the function that
  \<open>wrapGetServerSideProps\<close> returns give the same outcome: the same resolved result
  or the same rejection.
\<close>

theorem wrapFetch_same:
  "layout_wrapGetStaticProps options wrapped ctx =
   layout_wrapGetServerSideProps options wrapped ctx"
  by (simp add: layout_wrapGetServerSideProps_def layout_wrapGetStaticProps_def)

section \<open>Layout keys\<close>

text \<open>
  C8. The key of a layout is the prefix \<open>__layout\<close>, a colon and the name. Two
  distinct names have distinct keys. A value stored in an object under the key of a name
  is what reading the key of that name returns, and storing under the key of one name
  leaves what is read under the key of any other name unchanged.
\<close>

theorem layoutKey_roundtrip:
  "layoutKey n = ''__layout'' @ '':'' @ n \<and>
   (n \<noteq> n' \<longrightarrow> layoutKey n \<noteq> layoutKey n') \<and>
   member (Obj (m(layoutKey n \<mapsto> v))) (layoutKey n) = v \<and>
   (n \<noteq> n' \<longrightarrow>
      member (Obj (m(layoutKey n \<mapsto> v))) (layoutKey n') = member (Obj m) (layoutKey n'))"
  by (simp add: layoutKey_def)

theorem layoutKey_roundtrip_witness:
  "''a'' \<noteq> ''b'' \<and> layoutKey ''a'' \<noteq> layoutKey ''b'' \<and>
   member (Obj ([layoutKey ''b'' \<mapsto> Num 2](layoutKey ''a'' \<mapsto> Num 1))) (layoutKey ''a'') = Num 1 \<and>
   member (Obj ([layoutKey ''b'' \<mapsto> Num 2](layoutKey ''a'' \<mapsto> Num 1))) (layoutKey ''b'') = Num 2"
  using layoutKey_roundtrip [of "''a''" "''b''" "[layoutKey ''b'' \<mapsto> Num 2]" "Num 1"]
  by (simp add: layoutKey_def)

section \<open>The combined getData\<close>

text \<open>
  When every promise is fulfilled, \<open>Promise.all\<close> gives the values in the order of the
  promises, whatever the order of settling; when it rejects, it rejects with the
  rejection of one of them.
\<close>

lemma settle_fulfilled:
  "settle (map Inr vs) order slots =
     Inr (fold (\<lambda>i s. if i < length vs then s[i := Some (vs ! i)] else s) order slots)"
  by (induction order arbitrary: slots) auto

lemma fill_length:
  "length (fold (\<lambda>i s. if i < length vs then s[i := Some (vs ! i)] else s) order slots) = length slots"
  by (induction order arbitrary: slots) auto

lemma fill_nth:
  "j < length slots \<Longrightarrow> length slots = length vs \<Longrightarrow>
   fold (\<lambda>i s. if i < length vs then s[i := Some (vs ! i)] else s) order slots ! j =
     (if j \<in> set order then Some (vs ! j) else slots ! j)"
proof (induction order arbitrary: slots)
  case Nil
  then show ?case by simp
next
  case (Cons i order)
  then show ?case by (auto simp: nth_list_update)
qed

lemma fill_all:
  "fold (\<lambda>i s. if i < length vs then s[i := Some (vs ! i)] else s)
     (order @ [0..<length vs]) (replicate (length vs) None) = map Some vs"
  by (rule nth_equalityI) (simp_all add: fill_length fill_nth)

lemma map_filter_Some: "List.map_filter (\<lambda>s. s) (map Some vs) = vs"
  by (induction vs) (simp_all add: List.map_filter_simps)

lemma Promise_all_fulfilled: "Promise_all order (map Inr vs) = Inr vs"
  using fill_all [of vs order]
  by (simp add: Promise_all_def settle_fulfilled map_filter_Some)

lemma settle_rejected:
  "settle outcomes order slots = Inl e \<Longrightarrow> Inl e \<in> set outcomes"
  by (induction order arbitrary: slots) (auto split: if_splits sum.splits dest: nth_mem)

lemma assign_fold:
  "foldl (\<lambda>acc s. acc ++ own_props s) acc (map (\<lambda>l. Obj [k l \<mapsto> v l]) ls) =
     acc ++ map_of (rev (map (\<lambda>l. (k l, v l)) ls))"
  by (induction ls arbitrary: acc) (simp_all add: map_add_upd)

lemma map_of_rev_distinct:
  "distinct (map fst ps) \<Longrightarrow> map_of (rev ps) = map_of ps"
proof (induction ps)
  case Nil
  then show ?case by simp
next
  case (Cons p ps)
  obtain k v where p: "p = (k, v)" by (cases p)
  from Cons.prems p have "map_of ps k = None"
    by (simp add: map_of_eq_None_iff)
  with Cons p show ?case
    by (auto simp: fun_eq_iff map_add_def split: option.splits)
qed

lemma combined_getData_fulfilled:
  assumes "\<forall>l\<in>set layouts. await_getData (getOptionsFromLayout l) ctx = Inr (ds l)"
  shows "combined_getData sched layouts ctx =
           Inr (Obj (map_of (rev (map (\<lambda>l. (layoutKey (name (getOptionsFromLayout l)), coalesce (ds l) Null)) layouts))))"
proof -
  let ?one = "\<lambda>l. Obj [layoutKey (name (getOptionsFromLayout l)) \<mapsto> coalesce (ds l) Null]"
  have "map (fetch_one ctx) layouts = map Inr (map ?one layouts)"
    using assms by (simp add: fetch_one_def)
  then have "Promise_all (sched ctx) (map (fetch_one ctx) layouts) = Inr (map ?one layouts)"
    by (simp only: Promise_all_fulfilled)
  moreover have "filter truthy (map ?one layouts) = map ?one layouts"
    by (induction layouts) simp_all
  ultimately show ?thesis
    by (simp add: combined_getData_def Object_assign_def assign_fold)
qed

lemma layoutKey_inj: "inj layoutKey"
  by (simp add: inj_def layoutKey_def)

lemma layout_keys_distinct:
  assumes "distinct (map (\<lambda>l. name (getOptionsFromLayout l)) layouts)"
  shows "distinct (map fst (map (\<lambda>l. (layoutKey (name (getOptionsFromLayout l)), v l)) layouts))"
proof -
  have "map fst (map (\<lambda>l. (layoutKey (name (getOptionsFromLayout l)), v l)) layouts) =
          map layoutKey (map (\<lambda>l. name (getOptionsFromLayout l)) layouts)"
    by simp
  with assms show ?thesis
    by (simp only: distinct_map) (auto intro: inj_on_subset [OF layoutKey_inj])
qed

lemma combined_getData_merged:
  assumes "distinct (map (\<lambda>l. name (getOptionsFromLayout l)) layouts)"
    and "\<forall>l\<in>set layouts. await_getData (getOptionsFromLayout l) ctx = Inr (ds l)"
  shows "combined_getData sched layouts ctx =
           Inr (Obj (map_of (map (\<lambda>l. (layoutKey (name (getOptionsFromLayout l)), coalesce (ds l) Null))
                               layouts)))"
  using combined_getData_fulfilled [OF assms(2)]
    map_of_rev_distinct [OF layout_keys_distinct [OF assms(1)]]
  by simp

lemma merged_entry:
  assumes "distinct (map (\<lambda>l. name (getOptionsFromLayout l)) layouts)" and "l \<in> set layouts"
  shows "map_of (map (\<lambda>l. (layoutKey (name (getOptionsFromLayout l)), v l)) layouts)
           (layoutKey (name (getOptionsFromLayout l))) = Some (v l)"
proof -
  from assms(2)
  have "(layoutKey (name (getOptionsFromLayout l)), v l)
          \<in> set (map (\<lambda>l. (layoutKey (name (getOptionsFromLayout l)), v l)) layouts)"
    by auto
  with layout_keys_distinct [OF assms(1)] show ?thesis by (rule map_of_is_SomeI)
qed

lemma merged_dom:
  "dom (map_of (map (\<lambda>l. (layoutKey (name (getOptionsFromLayout l)), v l)) layouts)) =
     (\<lambda>l. layoutKey (name (getOptionsFromLayout l))) ` set layouts"
  by (simp add: dom_map_of_conv_image_fst image_image)

text \<open>
  C2, as stated, fails: a constituent does not always contribute the value its
  \<open>getData\<close> resolved to. For the one constituent \<open>a\<close>, an object that carries its
  options, whose \<open>getData\<close> resolves to \<open>undefined\<close>, the combined \<open>getData\<close>
  gives \<open>null\<close> under the key of \<open>a\<close>.
\<close>

theorem combined_getData_undefined_counterexample:
  "await_getData
     (getOptionsFromLayout
        (layout_object \<lparr>name = ''a'', getLayout = None, getData = Some (resolve_to Undefined)\<rparr>)) ()
     = Inr Undefined
   \<and> combined_getData by_index
       [layout_object \<lparr>name = ''a'', getLayout = None, getData = Some (resolve_to Undefined)\<rparr>] ()
     = Inr (Obj [''__layout:a'' \<mapsto> Null])
   \<and> Null \<noteq> Undefined"
proof -
  let ?A = "layout_object \<lparr>name = ''a'', getLayout = None,
              getData = Some (resolve_to Undefined :: unit \<Rightarrow> err + jsval)\<rparr>"
  have "\<forall>l\<in>set [?A]. await_getData (getOptionsFromLayout l) () = Inr Undefined"
    by (simp add: await_getData_def layout_object_def getOptionsFromLayout_def resolve_to_def)
  from combined_getData_fulfilled [OF this, of by_index]
  show ?thesis
    by (simp add: layout_object_def getOptionsFromLayout_def
        await_getData_def resolve_to_def layoutKey_def coalesce_def)
qed

text \<open>
  C2, amended, for the \<open>getData\<close> that \<open>combineLayouts\<close> builds for its constituents.
  For constituents with pairwise distinct names, as the name check demands, whose
  fetches all resolve for a context, the constituent \<open>l\<close> to \<open>ds l\<close> (\<open>undefined\<close>
  when it has no \<open>getData\<close>), the combined \<open>getData\<close> resolves to an object whose
  keys are the constituents' own layout keys and whose entry under the key of \<open>l\<close> is
  \<open>ds l ?? null\<close>: the value \<open>ds l\<close> when it is neither \<open>null\<close> nor \<open>undefined\<close>,
  and \<open>null\<close> otherwise, in particular for a constituent without \<open>getData\<close>. The
  object is the same for every order in which the fetches settle. That
  \<open>combineLayouts\<close> throws in \<open>createLayout\<close> before it returns the composite is
  left aside.
\<close>

theorem combined_getData_union:
  assumes "distinct (map (\<lambda>l. name (getOptionsFromLayout l)) layouts)"
    and "\<forall>l\<in>set layouts. await_getData (getOptionsFromLayout l) ctx = Inr (ds l)"
  shows "\<exists>merged.
           (\<forall>sched. getData (combined_options sched layouts) = Some (combined_getData sched layouts) \<and>
              combined_getData sched layouts ctx = Inr (Obj merged)) \<and>
           dom merged = (\<lambda>l. layoutKey (name (getOptionsFromLayout l))) ` set layouts \<and>
           (\<forall>l\<in>set layouts.
              merged (layoutKey (name (getOptionsFromLayout l))) = Some (coalesce (ds l) Null)) \<and>
           (\<forall>l\<in>set layouts. \<not> nullish (ds l) \<longrightarrow>
              merged (layoutKey (name (getOptionsFromLayout l))) = Some (ds l)) \<and>
           (\<forall>l\<in>set layouts. getData (getOptionsFromLayout l) = None \<longrightarrow>
              merged (layoutKey (name (getOptionsFromLayout l))) = Some Null)"
proof -
  let ?key = "\<lambda>l. layoutKey (name (getOptionsFromLayout l))"
  let ?merged = "map_of (map (\<lambda>l. (?key l, coalesce (ds l) Null)) layouts)"
  have any: "getData (combined_options s layouts) = Some (combined_getData s layouts) \<and>
               combined_getData s layouts ctx = Inr (Obj ?merged)" for s
    using combined_getData_merged [OF assms, of s] by (simp add: combined_options_def)
  have entry: "?merged (?key l) = Some (coalesce (ds l) Null)" if "l \<in> set layouts" for l
    using assms(1) that by (rule merged_entry)
  have domain: "dom ?merged = ?key ` set layouts"
    by (rule merged_dom)
  have absent: "?merged (?key l) = Some Null"
    if "l \<in> set layouts" "getData (getOptionsFromLayout l) = None" for l
  proof -
    from that assms(2) have "ds l = Undefined" by (auto simp: await_getData_def)
    with entry [OF that(1)] show ?thesis by (simp add: coalesce_def)
  qed
  show ?thesis
    apply (rule exI [of _ ?merged])
    using any entry domain absent by (simp add: coalesce_def)
qed

theorem combined_getData_union_witness:
  "distinct (map (\<lambda>l. name (getOptionsFromLayout l))
     [layout_object \<lparr>name = ''a'', getLayout = None, getData = Some (resolve_to (Num 1))\<rparr>,
      layout_object \<lparr>name = ''b'', getLayout = None,
        getData = (None :: (unit \<Rightarrow> err + jsval) option)\<rparr>]) \<and>
   (\<exists>merged.
     combined_getData (last_first 2)
       [layout_object \<lparr>name = ''a'', getLayout = None, getData = Some (resolve_to (Num 1))\<rparr>,
        layout_object \<lparr>name = ''b'', getLayout = None, getData = None\<rparr>] () = Inr (Obj merged) \<and>
     combined_getData by_index
       [layout_object \<lparr>name = ''a'', getLayout = None, getData = Some (resolve_to (Num 1))\<rparr>,
        layout_object \<lparr>name = ''b'', getLayout = None, getData = None\<rparr>] () = Inr (Obj merged) \<and>
     merged ''__layout:a'' = Some (Num 1) \<and>
     merged ''__layout:b'' = Some Null \<and>
     dom merged = {''__layout:a'', ''__layout:b''})"
proof -
  let ?A = "layout_object \<lparr>name = ''a'', getLayout = None,
              getData = Some (resolve_to (Num 1) :: unit \<Rightarrow> err + jsval)\<rparr>"
  let ?B = "layout_object \<lparr>name = ''b'', getLayout = None,
              getData = (None :: (unit \<Rightarrow> err + jsval) option)\<rparr>"
  let ?ds = "\<lambda>l. if name (getOptionsFromLayout l) = ''a'' then Num 1 else Undefined"
  have names: "distinct (map (\<lambda>l. name (getOptionsFromLayout l)) [?A, ?B])"
    by (simp add: layout_object_def getOptionsFromLayout_def)
  have fetched: "\<forall>l\<in>set [?A, ?B]. await_getData (getOptionsFromLayout l) () = Inr (?ds l)"
    by (simp add: await_getData_def layout_object_def getOptionsFromLayout_def resolve_to_def)
  from combined_getData_union [OF names fetched]
  obtain merged where
    any: "\<forall>sched. getData (combined_options sched [?A, ?B]) = Some (combined_getData sched [?A, ?B]) \<and>
            combined_getData sched [?A, ?B] () = Inr (Obj merged)"
    and dom: "dom merged = (\<lambda>l. layoutKey (name (getOptionsFromLayout l))) ` set [?A, ?B]"
    and entries: "\<forall>l\<in>set [?A, ?B].
        merged (layoutKey (name (getOptionsFromLayout l))) = Some (coalesce (?ds l) Null)"
    by blast
  from any have one: "combined_getData (last_first 2) [?A, ?B] () = Inr (Obj merged)"
    and two: "combined_getData by_index [?A, ?B] () = Inr (Obj merged)"
    by blast+
  from entries have a: "merged ''__layout:a'' = Some (Num 1)"
    and b: "merged ''__layout:b'' = Some Null"
    by (simp_all add: layout_object_def getOptionsFromLayout_def layoutKey_def coalesce_def)
  from dom have d: "dom merged = {''__layout:a'', ''__layout:b''}"
    by (simp add: layout_object_def getOptionsFromLayout_def layoutKey_def)
  from names one two a b d show ?thesis by blast
qed

section \<open>The combined getLayout\<close>

lemma render_Fragment_single: "render (Fragment [x]) env = render x env"
  by (simp split: sum.splits)

lemma pagesCombined_Cons:
  "pagesCombined (l # ls) env page data =
     (case pagesCombined ls env page data of
        Inl e \<Rightarrow> Inl e
      | Inr inner \<Rightarrow>
          (case getLayout (getOptionsFromLayout l) of
             None \<Rightarrow> Inr (Fragment [inner])
           | Some g \<Rightarrow>
               (case get_member data (layoutKey (name (getOptionsFromLayout l))) of
                  Inl e \<Rightarrow> Inl e
                | Inr slice \<Rightarrow>
                    (case g env inner slice of
                       Inl e \<Rightarrow> Inl e
                     | Inr w \<Rightarrow> Inr (Fragment [w])))))"
  by (simp add: pagesCombined_def wrap_step_def Let_def split: sum.splits option.splits)

lemma pagesCombined_append:
  "pagesCombined (xs @ ys) env page data =
     foldr (wrap_step env data) xs (pagesCombined ys env page data)"
  by (simp add: pagesCombined_def)

text \<open>
  C3, for the \<open>getLayout\<close> that \<open>combineLayouts\<close> builds for its constituents. It is
  a fold from the right. It starts from the page content. The layouts after the first
  are applied to the content, and the first layout is applied to their result, so the
  first layout is outermost. A layout with a \<open>getLayout\<close> receives the accumulated
  content and \<open>data[key]\<close> for its own layout key, which is the member of the data under
  that key whenever the data is neither \<open>null\<close> nor \<open>undefined\<close>, as the merged data
  is; a layout without one passes the accumulated content on. For two layouts with
  wrappers \<open>g1\<close> and \<open>g2\<close>, the result is \<open>g1\<close> applied to the result of \<open>g2\<close>
  applied to the page. The code puts each step into a fragment, which renders as its
  content does.
\<close>

theorem combined_getLayout_nesting:
  "getLayout (combined_options sched layouts) = Some (combined_getLayout layouts) \<and>
   combined_getLayout layouts env page data =
     (case pagesCombined layouts env page data of
        Inl e \<Rightarrow> Inl e
      | Inr inner \<Rightarrow> Inr (Fragment [inner])) \<and>
   pagesCombined [] env page data = Inr (Fragment [page]) \<and>
   pagesCombined (l # ls) env page data =
     (case pagesCombined ls env page data of
        Inl e \<Rightarrow> Inl e
      | Inr inner \<Rightarrow>
          (case getLayout (getOptionsFromLayout l) of
             None \<Rightarrow> Inr (Fragment [inner])
           | Some g \<Rightarrow>
               (case get_member data (layoutKey (name (getOptionsFromLayout l))) of
                  Inl e \<Rightarrow> Inl e
                | Inr slice \<Rightarrow>
                    (case g env inner slice of
                       Inl e \<Rightarrow> Inl e
                     | Inr w \<Rightarrow> Inr (Fragment [w]))))) \<and>
   (\<not> nullish data \<longrightarrow> get_member data k = Inr (member data k)) \<and>
   (\<not> nullish data \<and>
    getLayout (getOptionsFromLayout L1) = Some g1 \<and>
    getLayout (getOptionsFromLayout L2) = Some g2 \<and>
    g2 env (Fragment [page]) (member data (layoutKey (name (getOptionsFromLayout L2)))) = Inr e2 \<and>
    g1 env (Fragment [e2]) (member data (layoutKey (name (getOptionsFromLayout L1)))) = Inr e1
    \<longrightarrow> combined_getLayout [L1, L2] env page data = Inr (Fragment [Fragment [e1]]) \<and>
        render (Fragment [Fragment [e1]]) env' = render e1 env') \<and>
   render (Fragment [x]) env' = render x env'"
proof -
  have attached: "getLayout (combined_options sched layouts) = Some (combined_getLayout layouts)"
    by (simp add: combined_options_def)
  have whole: "combined_getLayout layouts env page data =
      (case pagesCombined layouts env page data of
         Inl e \<Rightarrow> Inl e
       | Inr inner \<Rightarrow> Inr (Fragment [inner]))"
    by (simp add: combined_getLayout_def)
  have seed: "pagesCombined [] env page data = Inr (Fragment [page])"
    by (simp add: pagesCombined_def)
  have slice: "\<not> nullish data \<longrightarrow> get_member data k = Inr (member data k)"
    by (simp add: get_member_def)
  have two: "\<not> nullish data \<and>
      getLayout (getOptionsFromLayout L1) = Some g1 \<and>
      getLayout (getOptionsFromLayout L2) = Some g2 \<and>
      g2 env (Fragment [page]) (member data (layoutKey (name (getOptionsFromLayout L2)))) = Inr e2 \<and>
      g1 env (Fragment [e2]) (member data (layoutKey (name (getOptionsFromLayout L1)))) = Inr e1
      \<longrightarrow> combined_getLayout [L1, L2] env page data = Inr (Fragment [Fragment [e1]]) \<and>
          render (Fragment [Fragment [e1]]) env' = render e1 env'"
    by (simp add: combined_getLayout_def pagesCombined_def wrap_step_def get_member_def
        render_Fragment_single del: render.simps)
  show ?thesis
    by (intro conjI attached whole seed slice two pagesCombined_Cons render_Fragment_single)
qed

theorem combined_getLayout_nesting_witness:
  "\<not> nullish (Obj [''__layout:a'' \<mapsto> Str ''A'', ''__layout:b'' \<mapsto> Str ''B'']) \<and>
   combined_getLayout
     [layout_object \<lparr>name = ''a'', getLayout = Some (host_wrapper ''header''),
        getData = (None :: (unit \<Rightarrow> err + jsval) option)\<rparr>,
      layout_object \<lparr>name = ''b'', getLayout = Some (host_wrapper ''sidebar''), getData = None\<rparr>]
     (default_env ''/'') (Text ''page'')
     (Obj [''__layout:a'' \<mapsto> Str ''A'', ''__layout:b'' \<mapsto> Str ''B''])
   = Inr (Fragment [Fragment [Host ''header'' [Text ''A'',
            Fragment [Host ''sidebar'' [Text ''B'', Fragment [Text ''page'']]]]]]) \<and>
   render (Fragment [Fragment [Host ''header'' [Text ''A'',
            Fragment [Host ''sidebar'' [Text ''B'', Fragment [Text ''page'']]]]]]) (default_env ''/'')
   = Inr [DNode ''header'' [DText ''A'', DNode ''sidebar'' [DText ''B'', DText ''page'']]]"
proof -
  let ?data = "Obj [''__layout:a'' \<mapsto> Str ''A'', ''__layout:b'' \<mapsto> Str ''B'']"
  let ?A = "layout_object \<lparr>name = ''a'', getLayout = Some (host_wrapper ''header''),
              getData = (None :: (unit \<Rightarrow> err + jsval) option)\<rparr>"
  let ?B = "layout_object \<lparr>name = ''b'', getLayout = Some (host_wrapper ''sidebar''),
              getData = (None :: (unit \<Rightarrow> err + jsval) option)\<rparr>"
  let ?inner = "Host ''sidebar'' [Text ''B'', Fragment [Text ''page'']]"
  let ?outer = "Host ''header'' [Text ''A'', Fragment [?inner]]"
  have present: "\<not> nullish ?data" by simp
  have hyps: "getLayout (getOptionsFromLayout ?A) = Some (host_wrapper ''header'') \<and>
      getLayout (getOptionsFromLayout ?B) = Some (host_wrapper ''sidebar'') \<and>
      host_wrapper ''sidebar'' (default_env ''/'') (Fragment [Text ''page''])
        (member ?data (layoutKey (name (getOptionsFromLayout ?B)))) = Inr ?inner \<and>
      host_wrapper ''header'' (default_env ''/'') (Fragment [?inner])
        (member ?data (layoutKey (name (getOptionsFromLayout ?A)))) = Inr ?outer"
    by (simp add: layout_object_def getOptionsFromLayout_def host_wrapper_def layoutKey_def)
  from combined_getLayout_nesting [of by_index "[?A, ?B]" "default_env ''/''" "Text ''page''" ?data
      ?A "[?B]" "''__layout:a''" ?A "host_wrapper ''header''" ?B "host_wrapper ''sidebar''"
      ?inner ?outer "default_env ''/''" "Text ''page''"]
    present hyps
  have "combined_getLayout [?A, ?B] (default_env ''/'') (Text ''page'') ?data
          = Inr (Fragment [Fragment [?outer]]) \<and>
        render (Fragment [Fragment [?outer]]) (default_env ''/'') = render ?outer (default_env ''/'')"
    by blast
  then show ?thesis by simp
qed

section \<open>The name check\<close>

text \<open>
  Where a name repeats, \<open>combineLayouts\<close> throws the conflict error before it does
  anything else, and the error depends on the names only. For names that
  \<open>Object.prototype\<close> does not define, the list in the message holds exactly the
  repeated names, each once. Where no name repeats, the error is not the conflict error.
\<close>

lemma string_of_nat_digits: "set (string_of_nat n) \<subseteq> set ''0123456789''"
proof (induction n rule: string_of_nat.induct)
  case (1 n)
  have d: "''0123456789'' ! m \<in> set ''0123456789''" if "m < 10" for m
    using that by (intro nth_mem) simp
  show ?case
  proof (cases "n < 10")
    case True
    then show ?thesis using d [of n] by (subst string_of_nat.simps) simp
  next
    case False
    have "n mod 10 < 10" by simp
    from d [OF this] 1 False show ?thesis by (subst string_of_nat.simps) simp
  qed
qed

lemma array_index_digits: "is_array_index k \<Longrightarrow> set k \<subseteq> set ''0123456789''"
  using string_of_nat_digits [of "nat_of_string k"] by (simp add: is_array_index_def)

lemma not_index_constructor: "\<not> is_array_index ''constructor''"
  using array_index_digits [of "''constructor''"] by auto

lemma map_of_assign_prop: "map_of (assign_prop a k v) = (map_of a)(k \<mapsto> v)"
  by (induction a k v rule: assign_prop.induct) (auto simp: fun_eq_iff)

lemma keys_assign_prop: "fst ` set (assign_prop a k v) = insert k (fst ` set a)"
  by (induction a k v rule: assign_prop.induct) auto

lemma distinct_assign_prop:
  "distinct (map fst a) \<Longrightarrow> distinct (map fst (assign_prop a k v))"
proof (induction a k v rule: assign_prop.induct)
  case (1 k v)
  then show ?case by simp
next
  case (2 k' v' ps k v)
  then show ?case
    using keys_assign_prop [of ps k v] by (auto simp: image_iff)
qed

lemma count_step_plain:
  assumes "n \<notin> set Object_prototype_names"
    and "map_of a n = (if n \<in> set seen then Some (Tally (count_list seen n)) else None)"
  shows "count_step a n = assign_prop a n (Tally (count_list seen n + 1))"
proof -
  have "n \<noteq> ''__proto__''"
    using assms(1) by (auto simp: Object_prototype_names_def)
  then show ?thesis
    using assms by (simp add: count_step_def)
qed

lemma uniq_plain:
  assumes "set names \<inter> set Object_prototype_names = {}"
  shows "distinct (map fst (uniq names)) \<and>
         map_of (uniq names) = (\<lambda>n. if n \<in> set names then Some (Tally (count_list names n)) else None)"
  using assms
proof (induction names rule: rev_induct)
  case Nil
  then show ?case by (simp add: uniq_def)
next
  case (snoc x xs)
  then have IH: "distinct (map fst (uniq xs))"
    "map_of (uniq xs) = (\<lambda>n. if n \<in> set xs then Some (Tally (count_list xs n)) else None)"
    by auto
  from snoc.prems have plain: "x \<notin> set Object_prototype_names" by auto
  have step: "uniq (xs @ [x]) = assign_prop (uniq xs) x (Tally (count_list xs x + 1))"
    using count_step_plain [OF plain, of "uniq xs" xs] IH(2) by (simp add: uniq_def)
  show ?case
    using IH by (auto simp: step distinct_assign_prop map_of_assign_prop fun_eq_iff)
qed

lemma set_Object_keys: "set (Object_keys ps) = fst ` set ps"
  by (auto simp: Object_keys_def)

lemma distinct_Object_keys: "distinct (map fst ps) \<Longrightarrow> distinct (Object_keys ps)"
  by (auto simp: Object_keys_def)

lemma duplicates_plain:
  assumes "set names \<inter> set Object_prototype_names = {}"
  shows "set (duplicates names) = {n. 1 < count_list names n} \<and> distinct (duplicates names)"
proof -
  note u = uniq_plain [OF assms]
  have keys: "fst ` set (uniq names) = set names"
    using u by (metis (no_types, lifting) dom_map_of_conv_image_fst domIff option.distinct(1) subsetI subset_antisym)
  have "1 < count_list names n \<Longrightarrow> n \<in> set names" for n
    by (metis count_notin not_less_zero)
  then show ?thesis
    using u keys by (auto simp: duplicates_def set_Object_keys distinct_Object_keys)
qed

text \<open>
  The check on three layout objects named \<open>a\<close>, \<open>b\<close>, \<open>a\<close>: the message names \<open>a\<close>.
\<close>

lemma combineLayouts_plain_name:
  "combineLayouts (by_index :: unit \<Rightarrow> nat list)
     [layout_object \<lparr>name = ''a'', getLayout = None, getData = None\<rparr>,
      layout_object \<lparr>name = ''b'', getLayout = None, getData = None\<rparr>,
      layout_object \<lparr>name = ''a'', getLayout = None, getData = None\<rparr>]
   = Inl (Created COMBINED_LAYOUT_NAME_CONFLICT
       \<lparr>errorContext = ''combineLayouts'',
        message = ''Layouts must have unique `name` values to be combinable. Conflicting name(s) found: a'',
        location = None, layoutName = None\<rparr>)"
proof -
  have "\<not> is_array_index ''a''" "\<not> is_array_index ''b''"
    using array_index_digits [of "''a''"] array_index_digits [of "''b''"] by auto
  then show ?thesis
  by (simp add: combineLayouts_def layout_object_def getOptionsFromLayout_def Let_def
      uniq_def duplicates_def count_step_def Object_prototype_names_def Object_keys_def names_distinct_iff
      name_conflict_message_def)
qed

text \<open>
  C4 at two layout objects that both carry the name \<open>constructor\<close> in their
  \<open>__layoutOptions\<close>: \<open>combineLayouts\<close> fails with \<open>COMBINED_LAYOUT_NAME_CONFLICT\<close>,
  and the message ends after \<open>found:\<close> without naming the repeated name. The count of
  the name starts from the function inherited from \<open>Object.prototype\<close>, not from
  \<open>0\<close>, and never becomes a number greater than one. The objects are written by the caller, not
  made by \<open>createLayout\<close>, and the check throws before \<open>createLayout\<close> is reached.
\<close>

theorem combineLayouts_inherited_name:
  "combineLayouts (by_index :: unit \<Rightarrow> nat list)
     [layout_object \<lparr>name = ''constructor'', getLayout = None, getData = None\<rparr>,
      layout_object \<lparr>name = ''constructor'', getLayout = None, getData = None\<rparr>]
   = Inl (Created COMBINED_LAYOUT_NAME_CONFLICT
       \<lparr>errorContext = ''combineLayouts'',
        message = ''Layouts must have unique `name` values to be combinable. Conflicting name(s) found: '',
        location = None, layoutName = None\<rparr>)"
  by (simp add: combineLayouts_def layout_object_def getOptionsFromLayout_def Let_def
      uniq_def duplicates_def count_step_def Object_prototype_names_def Object_keys_def
      not_index_constructor names_distinct_iff name_conflict_message_def)

section \<open>wrapPage and the provider\<close>

lemma invalid_ref_stripped:
  "\<not> invalid_ref (Obj ((own_props props)(''key'' := None, ''ref'' := None)))"
  by (simp add: invalid_ref_def)

lemma render_jsx:
  "render (jsx C props) env =
     (if invalid_ref props then Inl InvalidRef
      else (case C env (Obj ((own_props props)(''key'' := None, ''ref'' := None))) of
              Inl e \<Rightarrow> Inl e
            | Inr el \<Rightarrow> render el env))"
  by (simp add: jsx_def split: sum.splits)

lemma render_jsx_stripped:
  "\<not> invalid_ref props \<Longrightarrow>
   render (jsx C (Obj ((own_props props)(''key'' := None, ''ref'' := None)))) env =
     render (jsx C props) env"
  by (simp add: render_jsx invalid_ref_stripped del: render.simps)

lemma wrapped_component:
  "component (layout_wrapPage options Page) env props =
     (if LayoutProviderContext env then Inr (jsx Page props)
      else Inl (Created LAYOUT_PROVIDER_NOT_IMPLEMENTED
             \<lparr>errorContext = ''wrapPage'', message = provider_missing_message,
              location = None, layoutName = None\<rparr>))"
  by (simp add: layout_wrapPage_def)

lemma render_wrapped_page:
  "render (jsx (component (layout_wrapPage options Page)) props) env =
     (if LayoutProviderContext env then render (jsx Page props) env
      else if invalid_ref props then Inl InvalidRef
      else Inl (Created LAYOUT_PROVIDER_NOT_IMPLEMENTED
             \<lparr>errorContext = ''wrapPage'', message = provider_missing_message,
              location = None, layoutName = None\<rparr>))"
proof (cases "invalid_ref props")
  case True
  then show ?thesis by (simp add: render_jsx del: render.simps)
next
  case False
  then show ?thesis
    using render_jsx_stripped [OF False, of Page env]
    by (simp add: render_jsx [of "component (layout_wrapPage options Page)"] wrapped_component
        del: render.simps)
qed

lemma wrapped_getLayout:
  "page_getLayout (layout_wrapPage options Page) = Some (layout_getLayout options)"
  by (simp add: layout_wrapPage_def)

lemma layout_getLayout_unfold:
  "\<not> nullish pageProps \<Longrightarrow>
   layout_getLayout options env C pageProps =
     (case getLayout options of
        None \<Rightarrow>
          Inr (DataProvider
                (layout_ctx options (LayoutDataContext env) (member pageProps (layoutKey (name options))))
                (jsx C (Obj ((own_props pageProps)(layoutKey (name options) := None)))))
      | Some g \<Rightarrow>
          (case g env (jsx C (Obj ((own_props pageProps)(layoutKey (name options) := None))))
                  (member pageProps (layoutKey (name options))) of
             Inl e \<Rightarrow> Inl e
           | Inr w \<Rightarrow>
               Inr (DataProvider
                     (layout_ctx options (LayoutDataContext env) (member pageProps (layoutKey (name options))))
                     w)))"
  by (simp add: layout_getLayout_def Let_def split: option.splits)

lemma render_LayoutProvider_plain:
  assumes "getLayout options = None" and "\<not> nullish pageProps"
  shows "render (LayoutProvider (layout_wrapPage options Page) pageProps) env =
           render (jsx Page (Obj ((own_props pageProps)(layoutKey (name options) := None))))
             (env\<lparr>LayoutProviderContext := True,
                  LayoutDataContext :=
                    layout_ctx options (LayoutDataContext env) (member pageProps (layoutKey (name options)))\<rparr>)"
proof -
  let ?env1 = "env\<lparr>LayoutProviderContext := True\<rparr>"
  let ?ctx = "layout_ctx options (LayoutDataContext env) (member pageProps (layoutKey (name options)))"
  let ?rest = "Obj ((own_props pageProps)(layoutKey (name options) := None))"
  let ?W = "layout_wrapPage options Page"
  have dispatch: "RenderLayout ?W pageProps ?env1 =
      Inr (Fragment [DataProvider ?ctx (jsx (component ?W) ?rest)])"
    using assms by (simp add: RenderLayout_def wrapped_getLayout layout_getLayout_unfold)
  have "render (LayoutProvider ?W pageProps) env =
          render (Fragment [DataProvider ?ctx (jsx (component ?W) ?rest)]) ?env1"
    using dispatch by (simp add: LayoutProvider_def)
  also have "\<dots> = render (jsx (component ?W) ?rest) (?env1\<lparr>LayoutDataContext := ?ctx\<rparr>)"
    by (simp split: sum.splits)
  also have "\<dots> = render (jsx Page ?rest) (?env1\<lparr>LayoutDataContext := ?ctx\<rparr>)"
    by (simp add: render_wrapped_page del: render.simps)
  finally show ?thesis by simp
qed

text \<open>
  C6, for the component that \<open>wrapPage\<close> returns. It throws
  \<open>LAYOUT_PROVIDER_NOT_IMPLEMENTED\<close> when the provider flag is not set, and returns the
  page element with the props it was given when the flag is set; the \<open>getLayout\<close>
  operation of the layout is attached to it. Rendered under the default contexts,
  outside any provider, it fails with that error, unless React has already refused the
  \<open>ref\<close> of its element; rendered under a provider of the flag it renders as the page
  does. For a layout without \<open>getLayout\<close>, rendering the wrapped page under
  \<open>LayoutProvider\<close> is rendering the page, with the props left after the layout's key
  is taken out, under the flag and the published data context.
\<close>

theorem wrapPage_provider_check:
  "component (layout_wrapPage options Page) env props =
     (if LayoutProviderContext env then Inr (jsx Page props)
      else Inl (Created LAYOUT_PROVIDER_NOT_IMPLEMENTED
             \<lparr>errorContext = ''wrapPage'', message = provider_missing_message,
              location = None, layoutName = None\<rparr>)) \<and>
   page_getLayout (layout_wrapPage options Page) = Some (layout_getLayout options) \<and>
   render (jsx (component (layout_wrapPage options Page)) props) (default_env path) =
     (if invalid_ref props then Inl InvalidRef
      else Inl (Created LAYOUT_PROVIDER_NOT_IMPLEMENTED
             \<lparr>errorContext = ''wrapPage'', message = provider_missing_message,
              location = None, layoutName = None\<rparr>)) \<and>
   render (FlagProvider True (jsx (component (layout_wrapPage options Page)) props)) env =
     render (jsx Page props) (env\<lparr>LayoutProviderContext := True\<rparr>) \<and>
   (getLayout options = None \<and> \<not> nullish pageProps \<longrightarrow>
      render (LayoutProvider (layout_wrapPage options Page) pageProps) env =
        render (jsx Page (Obj ((own_props pageProps)(layoutKey (name options) := None))))
          (env\<lparr>LayoutProviderContext := True,
               LayoutDataContext :=
                 layout_ctx options (LayoutDataContext env)
                   (member pageProps (layoutKey (name options)))\<rparr>))"
proof -
  have outside: "render (jsx (component (layout_wrapPage options Page)) props) (default_env path) =
     (if invalid_ref props then Inl InvalidRef
      else Inl (Created LAYOUT_PROVIDER_NOT_IMPLEMENTED
             \<lparr>errorContext = ''wrapPage'', message = provider_missing_message,
              location = None, layoutName = None\<rparr>))"
    by (simp add: render_wrapped_page default_env_def del: render.simps)
  have inside: "render (FlagProvider True (jsx (component (layout_wrapPage options Page)) props)) env =
     render (jsx Page props) (env\<lparr>LayoutProviderContext := True\<rparr>)"
    by (simp only: render.simps(4) render_wrapped_page) simp
  show ?thesis
    by (intro conjI impI wrapped_component wrapped_getLayout outside inside)
      (simp add: render_LayoutProvider_plain)
qed

theorem wrapPage_provider_check_witness:
  "getLayout \<lparr>name = ''a'', getLayout = None, getData = (None :: (unit \<Rightarrow> err + jsval) option)\<rparr> = None \<and>
   \<not> nullish (Obj [''__layout:a'' \<mapsto> Num 1, ''x'' \<mapsto> Num 2]) \<and>
   render (jsx (component (layout_wrapPage
       \<lparr>name = ''a'', getLayout = None, getData = (None :: (unit \<Rightarrow> err + jsval) option)\<rparr>
       (text_page ''hello''))) (Obj [''x'' \<mapsto> Num 2])) (default_env ''/'')
     = Inl (Created LAYOUT_PROVIDER_NOT_IMPLEMENTED
           \<lparr>errorContext = ''wrapPage'', message = provider_missing_message,
            location = None, layoutName = None\<rparr>) \<and>
   render (LayoutProvider (layout_wrapPage
       \<lparr>name = ''a'', getLayout = None, getData = (None :: (unit \<Rightarrow> err + jsval) option)\<rparr>
       (text_page ''hello'')) (Obj [''__layout:a'' \<mapsto> Num 1, ''x'' \<mapsto> Num 2])) (default_env ''/'')
     = Inr [DText ''hello'']"
proof -
  let ?opts = "\<lparr>name = ''a'', getLayout = None, getData = (None :: (unit \<Rightarrow> err + jsval) option)\<rparr>"
  let ?pageProps = "Obj [''__layout:a'' \<mapsto> Num 1, ''x'' \<mapsto> Num 2]"
  note inst = wrapPage_provider_check
    [of ?opts "text_page ''hello''" "default_env ''/''" "Obj [''x'' \<mapsto> Num 2]" "''/''" ?pageProps]
  have hyps: "getLayout ?opts = None \<and> \<not> nullish ?pageProps" by simp
  have valid: "\<not> invalid_ref (Obj [''x'' \<mapsto> Num 2])"
    "\<not> invalid_ref (Obj ((own_props ?pageProps)(layoutKey (name ?opts) := None)))"
    by (simp_all add: invalid_ref_def layoutKey_def)
  have page: "\<not> invalid_ref props \<Longrightarrow> render (jsx (text_page ''hello'') props) env = Inr [DText ''hello'']"
    for props env
    by (simp add: render_jsx text_page_def del: render.simps) simp
  from inst hyps valid have
    "render (jsx (component (layout_wrapPage ?opts (text_page ''hello''))) (Obj [''x'' \<mapsto> Num 2]))
        (default_env ''/'')
       = Inl (Created LAYOUT_PROVIDER_NOT_IMPLEMENTED
           \<lparr>errorContext = ''wrapPage'', message = provider_missing_message,
            location = None, layoutName = None\<rparr>)"
    and "render (LayoutProvider (layout_wrapPage ?opts (text_page ''hello'')) ?pageProps)
        (default_env ''/'') = Inr [DText ''hello'']"
    by (simp_all add: page del: render.simps)
  with hyps show ?thesis by blast
qed

section \<open>useData\<close>

lemma layout_ctx_plain:
  "\<not> isCombinedLayout (name options) \<Longrightarrow>
   layout_ctx options cur v = cur(layoutKey (name options) \<mapsto> v)"
  by (simp add: layout_ctx_def)

lemma layout_ctx_combined:
  "isCombinedLayout (name options) \<Longrightarrow> layout_ctx options cur v = cur ++ own_props v"
  by (simp add: layout_ctx_def)


lemma useData_absent:
  "nullish (member (Obj (LayoutDataContext env)) (layoutKey (name options))) \<Longrightarrow>
   layout_useData options env =
     Inl (Created DATA_UNAVAILABLE
           \<lparr>errorContext = ''useData'', message = data_unavailable_message,
            location = Some (pathname env), layoutName = Some (name options)\<rparr>)"
  by (simp add: layout_useData_def split: option.splits)

lemma fetched_slice:
  assumes "layout_wrapGetStaticProps options wrapped ctx = Inr result"
    and "await_getData options ctx = Inr d"
  shows "\<not> nullish (member result ''props'') \<and>
         member (member result ''props'') (layoutKey (name options)) =
           coalesce (coalesce (opt_member d (layoutKey (name options))) d) Null"
  using assms
  by (auto simp: layout_wrapGetStaticProps_def Let_def split: sum.splits)

lemma getLayout_provides:
  assumes "\<not> nullish pageProps" and "layout_getLayout options env C pageProps = Inr el"
  shows "\<exists>child. el = DataProvider
           (layout_ctx options (LayoutDataContext env) (member pageProps (layoutKey (name options))))
           child"
  using assms by (auto simp: layout_getLayout_unfold split: option.splits sum.splits)

lemma render_page_using_data:
  "render (jsx (page_using_data hook) props) env =
     (if invalid_ref props then Inl InvalidRef
      else (case hook env of Inl e \<Rightarrow> Inl e | Inr v \<Rightarrow> Inr [DText ''data'']))"
  by (simp add: render_jsx page_using_data_def split: sum.splits del: render.simps)
     simp




section \<open>The published data context\<close>

lemma layout_ctx_frame_plain:
  "\<not> isCombinedLayout (name options) \<Longrightarrow>
   layout_ctx options cur v (layoutKey (name options)) = Some v \<and>
   (k \<noteq> layoutKey (name options) \<longrightarrow> layout_ctx options cur v k = cur k)"
  by (simp add: layout_ctx_plain)

lemma join_length: "n \<in> set ns \<Longrightarrow> length n \<le> length (join sep ns)"
  by (induction sep ns rule: join.induct) auto

lemma combined_name_fresh:
  "''__combined('' @ join '';'' ns @ '')'' \<notin> set ns"
proof
  assume "''__combined('' @ join '';'' ns @ '')'' \<in> set ns"
  from join_length [OF this, of "'';''"] show False by simp
qed

lemma layout_ctx_frame_combined:
  assumes names: "distinct (map (\<lambda>l. name (getOptionsFromLayout l)) layouts)"
    and fetched: "\<forall>l\<in>set layouts. await_getData (getOptionsFromLayout l) ctx = Inr (ds l)"
    and wrapped: "layout_wrapGetStaticProps (combined_options sched layouts) base ctx = Inr result"
  shows "\<exists>merged.
           member (member result ''props'') (layoutKey (name (combined_options sched layouts))) = Obj merged \<and>
           layout_ctx (combined_options sched layouts) cur (Obj merged) = cur ++ merged \<and>
           dom merged = (\<lambda>l. layoutKey (name (getOptionsFromLayout l))) ` set layouts \<and>
           (\<forall>l\<in>set layouts. (cur ++ merged) (layoutKey (name (getOptionsFromLayout l))) =
              Some (coalesce (ds l) Null)) \<and>
           (\<forall>k. k \<notin> (\<lambda>l. layoutKey (name (getOptionsFromLayout l))) ` set layouts \<longrightarrow>
              (cur ++ merged) k = cur k)"
proof -
  let ?names = "map (\<lambda>l. name (getOptionsFromLayout l)) layouts"
  let ?cname = "''__combined('' @ join '';'' ?names @ '')''"
  let ?keys = "(\<lambda>l. layoutKey (name (getOptionsFromLayout l))) ` set layouts"
  let ?copts = "combined_options sched layouts"
  have cname: "name ?copts = ?cname"
    by (simp add: combined_options_def)
  define merged where
    "merged = map_of (map (\<lambda>l. (layoutKey (name (getOptionsFromLayout l)), coalesce (ds l) Null)) layouts)"
  have data: "await_getData ?copts ctx = Inr (Obj merged)"
    using combined_getData_merged [OF names fetched, of sched]
    by (simp add: combined_options_def await_getData_def merged_def)
  have dom: "dom merged = ?keys"
    unfolding merged_def by (rule merged_dom)
  have entries: "\<forall>l\<in>set layouts. merged (layoutKey (name (getOptionsFromLayout l))) = Some (coalesce (ds l) Null)"
    unfolding merged_def using names by (auto intro: merged_entry)
  have "layoutKey ?cname \<notin> ?keys"
    using combined_name_fresh [of ?names] by (auto simp: layoutKey_def)
  with dom have own: "merged (layoutKey ?cname) = None" by blast
  from fetched_slice [OF wrapped data] own
  have slice: "member (member result ''props'') (layoutKey (name ?copts)) = Obj merged"
    by (simp add: cname coalesce_def opt_member_def)
  have "isCombinedLayout ?cname"
    by (simp add: isCombinedLayout_def)
  then have ctx: "layout_ctx ?copts cur (Obj merged) = cur ++ merged"
    by (simp add: layout_ctx_combined cname)
  have inside: "\<forall>l\<in>set layouts. (cur ++ merged) (layoutKey (name (getOptionsFromLayout l))) =
              Some (coalesce (ds l) Null)"
    using entries by (simp add: map_add_def)
  have outside: "\<forall>k. k \<notin> ?keys \<longrightarrow> (cur ++ merged) k = cur k"
    using dom by (auto simp: map_add_def split: option.splits)
  from slice ctx dom inside outside show ?thesis by blast
qed

text \<open>
  C7, as stated, fails: not every layout that \<open>combineLayouts\<close> did not make writes
  its own key only. With the options of a layout named \<open>__combinedX\<close>, no composite,
  whose \<open>getData\<close> resolves to \<open>{"__layout:b": 2}\<close>, and under a data context that
  holds \<open>1\<close> under \<open>__layout:b\<close>, the attached \<open>getLayout\<close> publishes a context that
  holds \<open>2\<close> under \<open>__layout:b\<close>, the key of another layout, and nothing under the
  layout's own key.
\<close>

theorem layout_ctx_frame_counterexample:
  "layout_wrapGetStaticProps
     \<lparr>name = ''__combinedX'', getLayout = None,
        getData = Some (resolve_to (Obj [''__layout:b'' \<mapsto> Num 2]))\<rparr> None ()
     = Inr (Obj [''props'' \<mapsto> Obj [''__layout:__combinedX'' \<mapsto> Obj [''__layout:b'' \<mapsto> Num 2]]]) \<and>
   layout_getLayout
     \<lparr>name = ''__combinedX'', getLayout = None,
        getData = Some (resolve_to (Obj [''__layout:b'' \<mapsto> Num 2]) :: unit \<Rightarrow> err + jsval)\<rparr>
     ((default_env ''/'')\<lparr>LayoutDataContext := [''__layout:b'' \<mapsto> Num 1]\<rparr>)
     (text_page ''page'')
     (Obj [''__layout:__combinedX'' \<mapsto> Obj [''__layout:b'' \<mapsto> Num 2]])
     = Inr (DataProvider [''__layout:b'' \<mapsto> Num 2] (jsx (text_page ''page'') (Obj Map.empty)))"
  by (simp add: layout_wrapGetStaticProps_def await_getData_def resolve_to_def
      defaultGetProps_def layoutKey_def coalesce_def opt_member_def layout_getLayout_def
      layout_ctx_def isCombinedLayout_def Let_def)

text \<open>
  C7, amended, on a first render. For every data context, the context that the attached
  \<open>getLayout\<close> publishes keeps every entry of the enclosing context whose key the
  layout does not write. With options whose name does not start with \<open>__combined\<close> it
  writes the layout's own key, with the slice, and no other. With the options that
  \<open>combineLayouts\<close> builds for constituents with distinct names, given the props the
  fetch wrapper for these options produced when the fetches of the constituents
  resolved, it writes the keys of the constituents, each with the data of that
  constituent (\<open>null\<close> for none), and no other. Every element the attached
  \<open>getLayout\<close> returns is a provider of that context. Nothing is said about other
  options with a name that starts with \<open>__combined\<close>, and that \<open>createLayout\<close> throws
  before it returns the closures is left aside.
\<close>

theorem layout_ctx_frame:
  "(\<not> isCombinedLayout (name options) \<longrightarrow>
      layout_ctx options cur v (layoutKey (name options)) = Some v \<and>
      (k \<noteq> layoutKey (name options) \<longrightarrow> layout_ctx options cur v k = cur k)) \<and>
   (distinct (map (\<lambda>l. name (getOptionsFromLayout l)) layouts) \<and>
    (\<forall>l\<in>set layouts. await_getData (getOptionsFromLayout l) ctx = Inr (ds l)) \<and>
    layout_wrapGetStaticProps (combined_options sched layouts) base ctx = Inr result
    \<longrightarrow>
      (\<exists>merged.
         member (member result ''props'') (layoutKey (name (combined_options sched layouts))) = Obj merged \<and>
         layout_ctx (combined_options sched layouts) cur (Obj merged) = cur ++ merged \<and>
         dom merged = (\<lambda>l. layoutKey (name (getOptionsFromLayout l))) ` set layouts \<and>
         (\<forall>l\<in>set layouts. (cur ++ merged) (layoutKey (name (getOptionsFromLayout l))) =
            Some (coalesce (ds l) Null)) \<and>
         (\<forall>k. k \<notin> (\<lambda>l. layoutKey (name (getOptionsFromLayout l))) ` set layouts \<longrightarrow>
            (cur ++ merged) k = cur k))) \<and>
   (\<not> nullish pageProps \<and> layout_getLayout options env C pageProps = Inr el \<longrightarrow>
      (\<exists>child. el = DataProvider
         (layout_ctx options (LayoutDataContext env) (member pageProps (layoutKey (name options))))
         child))"
  using layout_ctx_frame_plain [of options cur v k]
    layout_ctx_frame_combined [of layouts ctx ds sched base result cur]
    getLayout_provides [of pageProps options env C el]
  by blast

theorem layout_ctx_frame_witness:
  "\<not> isCombinedLayout ''a'' \<and>
   layout_ctx \<lparr>name = ''a'', getLayout = None, getData = Some (resolve_to (Num 1) :: unit \<Rightarrow> err + jsval)\<rparr>
     [''__layout:z'' \<mapsto> Num 9] (Num 1) ''__layout:a'' = Some (Num 1) \<and>
   layout_ctx \<lparr>name = ''a'', getLayout = None, getData = Some (resolve_to (Num 1) :: unit \<Rightarrow> err + jsval)\<rparr>
     [''__layout:z'' \<mapsto> Num 9] (Num 1) ''__layout:z'' = Some (Num 9) \<and>
   distinct (map (\<lambda>l. name (getOptionsFromLayout l))
     [layout_object \<lparr>name = ''a'', getLayout = None, getData = Some (resolve_to (Num 1))\<rparr>,
      layout_object \<lparr>name = ''b'', getLayout = None,
        getData = (None :: (unit \<Rightarrow> err + jsval) option)\<rparr>]) \<and>
   (\<exists>result merged.
      layout_wrapGetStaticProps
        (combined_options (last_first 2)
          [layout_object \<lparr>name = ''a'', getLayout = None, getData = Some (resolve_to (Num 1))\<rparr>,
           layout_object \<lparr>name = ''b'', getLayout = None, getData = None\<rparr>]) None () = Inr result \<and>
      member (member result ''props'')
        (layoutKey (name (combined_options (last_first 2)
          [layout_object \<lparr>name = ''a'', getLayout = None, getData = Some (resolve_to (Num 1))\<rparr>,
           layout_object \<lparr>name = ''b'', getLayout = None,
             getData = (None :: (unit \<Rightarrow> err + jsval) option)\<rparr>]))) = Obj merged \<and>
      ([''__layout:z'' \<mapsto> Num 9] ++ merged) ''__layout:a'' = Some (Num 1) \<and>
      ([''__layout:z'' \<mapsto> Num 9] ++ merged) ''__layout:b'' = Some Null \<and>
      ([''__layout:z'' \<mapsto> Num 9] ++ merged) ''__layout:z'' = Some (Num 9))"
proof -
  let ?a = "\<lparr>name = ''a'', getLayout = None, getData = Some (resolve_to (Num 1) :: unit \<Rightarrow> err + jsval)\<rparr>"
  let ?b = "\<lparr>name = ''b'', getLayout = None, getData = (None :: (unit \<Rightarrow> err + jsval) option)\<rparr>"
  let ?ls = "[layout_object ?a, layout_object ?b]"
  let ?copts = "combined_options (last_first 2) ?ls"
  let ?cur = "[''__layout:z'' \<mapsto> Num 9]"
  let ?ds = "\<lambda>l. if name (getOptionsFromLayout l) = ''a'' then Num 1 else Undefined"
  have plain: "\<not> isCombinedLayout (name ?a)"
    by (simp add: isCombinedLayout_def)
  have other: "''__layout:z'' \<noteq> layoutKey (name ?a)"
    by (simp add: layoutKey_def)
  have names: "distinct (map (\<lambda>l. name (getOptionsFromLayout l)) ?ls)"
    by (simp add: layout_object_def getOptionsFromLayout_def)
  have fetched: "\<forall>l\<in>set ?ls. await_getData (getOptionsFromLayout l) () = Inr (?ds l)"
    by (simp add: await_getData_def layout_object_def getOptionsFromLayout_def resolve_to_def)
  have "\<exists>d. await_getData ?copts () = Inr d"
    using combined_getData_merged [OF names fetched, of "last_first 2"]
    by (simp add: combined_options_def await_getData_def)
  then obtain result where wrapped: "layout_wrapGetStaticProps ?copts None () = Inr result"
    by (auto simp: layout_wrapGetStaticProps_def defaultGetProps_def Let_def)
  note inst = layout_ctx_frame [of ?a ?cur "Num 1" "''__layout:z''" ?ls "()" ?ds "last_first 2"
      None result "Obj Map.empty" "default_env ''/''" "text_page ''page''" "Text ''page''"]
  from inst plain other
  have own: "layout_ctx ?a ?cur (Num 1) ''__layout:a'' = Some (Num 1)"
    and kept: "layout_ctx ?a ?cur (Num 1) ''__layout:z'' = Some (Num 9)"
    by (simp_all add: layoutKey_def)
  from inst names fetched wrapped
  obtain merged where
    slice: "member (member result ''props'') (layoutKey (name ?copts)) = Obj merged"
    and inside: "\<forall>l\<in>set ?ls.
        (?cur ++ merged) (layoutKey (name (getOptionsFromLayout l))) = Some (coalesce (?ds l) Null)"
    and outside: "\<forall>k. k \<notin> (\<lambda>l. layoutKey (name (getOptionsFromLayout l))) ` set ?ls
        \<longrightarrow> (?cur ++ merged) k = ?cur k"
    by blast
  from inside have a: "(?cur ++ merged) ''__layout:a'' = Some (Num 1)"
    and b: "(?cur ++ merged) ''__layout:b'' = Some Null"
    by (simp_all add: layout_object_def getOptionsFromLayout_def layoutKey_def coalesce_def)
  from outside have z: "(?cur ++ merged) ''__layout:z'' = Some (Num 9)"
    by (simp add: layout_object_def getOptionsFromLayout_def layoutKey_def)
  from plain own kept names wrapped slice a b z show ?thesis
    by (intro conjI exI [of _ result] exI [of _ merged]) simp_all
qed

section \<open>Names that start with \<open>__combined\<close>\<close>

lemma layoutKey_not_numeral: "layoutKey n \<noteq> string_of_nat i"
proof
  assume "layoutKey n = string_of_nat i"
  with string_of_nat_digits [of i] have "set (layoutKey n) \<subseteq> set ''0123456789''" by simp
  then show False by (simp add: layoutKey_def)
qed

lemma indexed_layoutKey: "indexed xs (layoutKey n) = None"
proof -
  have "layoutKey n \<notin> set (map string_of_nat [0..<length xs])"
    using layoutKey_not_numeral by auto
  then show ?thesis
    by (simp add: indexed_def map_of_zip_is_None)
qed

lemma own_props_layoutKey:
  "member (Obj (own_props v)) (layoutKey n) = member v (layoutKey n)"
  by (cases v) (simp_all add: indexed_layoutKey)

lemma spread_absent:
  assumes "nullish (member (Obj cur) (layoutKey n))" and "nullish (member slice (layoutKey n))"
  shows "nullish (member (Obj (cur ++ own_props slice)) (layoutKey n))"
  using assms own_props_layoutKey [of slice n]
  by (auto simp: map_add_def split: option.splits)

lemma fetched_props:
  "layout_wrapGetStaticProps options wrapped ctx = Inr result \<Longrightarrow> \<not> nullish (member result ''props'')"
  by (auto simp: layout_wrapGetStaticProps_def Let_def split: sum.splits)

lemma invalid_ref_rest:
  "invalid_ref (Obj ((own_props props)(layoutKey n := None))) = invalid_ref props"
  by (simp add: invalid_ref_def layoutKey_def)

text \<open>
  C10, as stated, fails: \<open>useData()\<close> for a name that starts with \<open>__combined\<close> does
  not always throw. When \<open>getData\<close> for the name \<open>__combinedX\<close> resolves to an object
  that holds, under the layout's own key, an object that again holds \<open>5\<close> under that
  key, the fetch wrapper stores the inner object, \<open>getLayout\<close> spreads it, and
  \<open>useData()\<close> returns \<open>5\<close>.
\<close>

theorem reserved_prefix_counterexample:
  "isCombinedLayout ''__combinedX'' \<and>
   layout_wrapGetStaticProps
     \<lparr>name = ''__combinedX'', getLayout = None,
        getData = Some (resolve_to
          (Obj [''__layout:__combinedX'' \<mapsto> Obj [''__layout:__combinedX'' \<mapsto> Num 5]]))\<rparr> None ()
     = Inr (Obj [''props'' \<mapsto>
          Obj [''__layout:__combinedX'' \<mapsto> Obj [''__layout:__combinedX'' \<mapsto> Num 5]]]) \<and>
   render (LayoutProvider
       (layout_wrapPage
          \<lparr>name = ''__combinedX'', getLayout = None,
             getData = Some (resolve_to
               (Obj [''__layout:__combinedX'' \<mapsto> Obj [''__layout:__combinedX'' \<mapsto> Num 5]])
               :: unit \<Rightarrow> err + jsval)\<rparr>
          (page_using_data
             (layout_useData
                \<lparr>name = ''__combinedX'', getLayout = None,
                   getData = Some (resolve_to
                     (Obj [''__layout:__combinedX'' \<mapsto> Obj [''__layout:__combinedX'' \<mapsto> Num 5]])
                     :: unit \<Rightarrow> err + jsval)\<rparr>)))
       (Obj [''__layout:__combinedX'' \<mapsto> Obj [''__layout:__combinedX'' \<mapsto> Num 5]]))
       (default_env ''/'')
     = Inr [DText ''data'']"
proof -
  let ?opts = "\<lparr>name = ''__combinedX'', getLayout = None,
      getData = Some (resolve_to
        (Obj [''__layout:__combinedX'' \<mapsto> Obj [''__layout:__combinedX'' \<mapsto> Num 5]])
        :: unit \<Rightarrow> err + jsval)\<rparr>"
  have reserved: "isCombinedLayout ''__combinedX''"
    by (simp add: isCombinedLayout_def)
  have fetch: "layout_wrapGetStaticProps ?opts None ()
      = Inr (Obj [''props'' \<mapsto>
          Obj [''__layout:__combinedX'' \<mapsto> Obj [''__layout:__combinedX'' \<mapsto> Num 5]]])"
    by (simp add: layout_wrapGetStaticProps_def await_getData_def resolve_to_def
        defaultGetProps_def layoutKey_def coalesce_def opt_member_def)
  have "render (LayoutProvider (layout_wrapPage ?opts (page_using_data (layout_useData ?opts)))
          (Obj [''__layout:__combinedX'' \<mapsto> Obj [''__layout:__combinedX'' \<mapsto> Num 5]]))
          (default_env ''/'')
      = Inr [DText ''data'']"
    by (simp add: render_LayoutProvider_plain render_page_using_data layout_useData_def invalid_ref_def
        layout_ctx_def isCombinedLayout_def layoutKey_def default_env_def del: render.simps)
  with reserved fetch show ?thesis by simp
qed

text \<open>
  C10, amended, for the closures of any options whose name starts with \<open>__combined\<close>,
  built by \<open>combineLayouts\<close> or not, on a first render. The published data context is
  the enclosing context overlaid with the own properties of the layout's slice, and
  every element the attached \<open>getLayout\<close> returns is a provider of it. \<open>useData()\<close>
  under that context throws \<open>DATA_UNAVAILABLE\<close> whenever neither the enclosing context
  nor the slice has, under the layout's own key, a member other than \<open>null\<close> and
  \<open>undefined\<close>. In particular, without a \<open>getLayout\<close> in the options and with the
  props the fetch wrapper produced, a page that calls \<open>useData()\<close>, wrapped and
  rendered under \<open>LayoutProvider\<close> at the root, fails with that error whenever the
  stored slice has no such member and the props carry no \<open>ref\<close> that React refuses.
  That \<open>createLayout\<close> throws before it returns the closures is left aside.
\<close>

theorem reserved_prefix_spreads:
  "isCombinedLayout (name options) \<longrightarrow>
     layout_ctx options cur slice = cur ++ own_props slice \<and>
     (\<not> nullish pageProps \<and> layout_getLayout options env C pageProps = Inr el \<longrightarrow>
        (\<exists>child. el = DataProvider
           (LayoutDataContext env ++ own_props (member pageProps (layoutKey (name options)))) child)) \<and>
     (nullish (member (Obj cur) (layoutKey (name options))) \<and>
      nullish (member slice (layoutKey (name options))) \<longrightarrow>
        layout_useData options (env\<lparr>LayoutDataContext := cur ++ own_props slice\<rparr>) =
          Inl (Created DATA_UNAVAILABLE
                \<lparr>errorContext = ''useData'', message = data_unavailable_message,
                 location = Some (pathname env), layoutName = Some (name options)\<rparr>)) \<and>
     (getLayout options = None \<and>
      layout_wrapGetStaticProps options wrapped ctx = Inr result \<and>
      \<not> invalid_ref (member result ''props'') \<and>
      nullish (member (member (member result ''props'') (layoutKey (name options)))
                 (layoutKey (name options))) \<longrightarrow>
        render (LayoutProvider
                 (layout_wrapPage options (page_using_data (layout_useData options)))
                 (member result ''props'')) (default_env path) =
          Inl (Created DATA_UNAVAILABLE
                \<lparr>errorContext = ''useData'', message = data_unavailable_message,
                 location = Some path, layoutName = Some (name options)\<rparr>))"
proof
  assume reserved: "isCombinedLayout (name options)"
  let ?key = "layoutKey (name options)"
  have spread: "layout_ctx options c s = c ++ own_props s" for c s
    using reserved by (rule layout_ctx_combined)
  have provided: "\<not> nullish pageProps \<and> layout_getLayout options env C pageProps = Inr el \<longrightarrow>
        (\<exists>child. el = DataProvider (LayoutDataContext env ++ own_props (member pageProps ?key)) child)"
    using getLayout_provides [of pageProps options env C el] by (simp add: spread)
  have raised: "layout_useData options (e\<lparr>LayoutDataContext := c ++ own_props s\<rparr>) =
          Inl (Created DATA_UNAVAILABLE
                \<lparr>errorContext = ''useData'', message = data_unavailable_message,
                 location = Some (pathname e), layoutName = Some (name options)\<rparr>)"
    if "nullish (member (Obj c) ?key)" "nullish (member s ?key)" for e c s
    using spread_absent [OF that] by (simp add: useData_absent)
  have rendered: "render (LayoutProvider
                 (layout_wrapPage options (page_using_data (layout_useData options)))
                 (member result ''props'')) (default_env path) =
          Inl (Created DATA_UNAVAILABLE
                \<lparr>errorContext = ''useData'', message = data_unavailable_message,
                 location = Some path, layoutName = Some (name options)\<rparr>)"
    if nowrap: "getLayout options = None"
      and fetch: "layout_wrapGetStaticProps options wrapped ctx = Inr result"
      and valid: "\<not> invalid_ref (member result ''props'')"
      and flat: "nullish (member (member (member result ''props'') ?key) ?key)"
  proof -
    from fetch have props: "\<not> nullish (member result ''props'')" by (rule fetched_props)
    have root: "nullish (member (Obj (LayoutDataContext (default_env path))) ?key)"
      by (simp add: default_env_def)
    have "render (LayoutProvider (layout_wrapPage options (page_using_data (layout_useData options)))
             (member result ''props'')) (default_env path) =
          Inl (Created DATA_UNAVAILABLE
                \<lparr>errorContext = ''useData'', message = data_unavailable_message,
                 location = Some (pathname (default_env path)), layoutName = Some (name options)\<rparr>)"
      using raised [OF root flat] valid
      by (simp add: render_LayoutProvider_plain [OF nowrap props] render_page_using_data spread
          invalid_ref_rest del: render.simps)
    then show ?thesis by (simp add: default_env_def)
  qed
  from spread provided raised rendered
  show "layout_ctx options cur slice = cur ++ own_props slice \<and>
     (\<not> nullish pageProps \<and> layout_getLayout options env C pageProps = Inr el \<longrightarrow>
        (\<exists>child. el = DataProvider
           (LayoutDataContext env ++ own_props (member pageProps ?key)) child)) \<and>
     (nullish (member (Obj cur) ?key) \<and> nullish (member slice ?key) \<longrightarrow>
        layout_useData options (env\<lparr>LayoutDataContext := cur ++ own_props slice\<rparr>) =
          Inl (Created DATA_UNAVAILABLE
                \<lparr>errorContext = ''useData'', message = data_unavailable_message,
                 location = Some (pathname env), layoutName = Some (name options)\<rparr>)) \<and>
     (getLayout options = None \<and>
      layout_wrapGetStaticProps options wrapped ctx = Inr result \<and>
      \<not> invalid_ref (member result ''props'') \<and>
      nullish (member (member (member result ''props'') ?key) ?key) \<longrightarrow>
        render (LayoutProvider
                 (layout_wrapPage options (page_using_data (layout_useData options)))
                 (member result ''props'')) (default_env path) =
          Inl (Created DATA_UNAVAILABLE
                \<lparr>errorContext = ''useData'', message = data_unavailable_message,
                 location = Some path, layoutName = Some (name options)\<rparr>))"
    by blast
qed

theorem reserved_prefix_spreads_witness:
  "isCombinedLayout ''__combinedX'' \<and>
   layout_wrapGetStaticProps
     \<lparr>name = ''__combinedX'', getLayout = None,
        getData = Some (resolve_to (Obj [''title'' \<mapsto> Str ''t'']))\<rparr> None ()
     = Inr (Obj [''props'' \<mapsto> Obj [''__layout:__combinedX'' \<mapsto> Obj [''title'' \<mapsto> Str ''t'']]]) \<and>
   \<not> invalid_ref (Obj [''__layout:__combinedX'' \<mapsto> Obj [''title'' \<mapsto> Str ''t'']]) \<and>
   nullish (member (Obj [''title'' \<mapsto> Str ''t'']) ''__layout:__combinedX'') \<and>
   render (LayoutProvider
       (layout_wrapPage
          \<lparr>name = ''__combinedX'', getLayout = None,
             getData = Some (resolve_to (Obj [''title'' \<mapsto> Str ''t'']) :: unit \<Rightarrow> err + jsval)\<rparr>
          (page_using_data
             (layout_useData
                \<lparr>name = ''__combinedX'', getLayout = None,
                   getData = Some (resolve_to (Obj [''title'' \<mapsto> Str ''t'']) :: unit \<Rightarrow> err + jsval)\<rparr>)))
       (Obj [''__layout:__combinedX'' \<mapsto> Obj [''title'' \<mapsto> Str ''t'']])) (default_env ''/'')
     = Inl (Created DATA_UNAVAILABLE
             \<lparr>errorContext = ''useData'', message = data_unavailable_message,
              location = Some ''/'', layoutName = Some ''__combinedX''\<rparr>)"
proof -
  let ?opts = "\<lparr>name = ''__combinedX'', getLayout = None,
      getData = Some (resolve_to (Obj [''title'' \<mapsto> Str ''t'']) :: unit \<Rightarrow> err + jsval)\<rparr>"
  let ?result = "Obj [''props'' \<mapsto> Obj [''__layout:__combinedX'' \<mapsto> Obj [''title'' \<mapsto> Str ''t'']]]"
  have reserved: "isCombinedLayout (name ?opts)"
    by (simp add: isCombinedLayout_def)
  have nowrap: "getLayout ?opts = None" by simp
  have fetch: "layout_wrapGetStaticProps ?opts None () = Inr ?result"
    by (simp add: layout_wrapGetStaticProps_def await_getData_def resolve_to_def
        defaultGetProps_def layoutKey_def coalesce_def opt_member_def)
  have valid: "\<not> invalid_ref (member ?result ''props'')"
    by (simp add: invalid_ref_def)
  have flat: "nullish (member (member (member ?result ''props'') (layoutKey (name ?opts)))
      (layoutKey (name ?opts)))"
    by (simp add: layoutKey_def)
  from reserved_prefix_spreads [of ?opts "Map.empty" "Null" "Obj Map.empty" "default_env ''/''"
      "text_page ''page''" "Text ''page''" None "()" ?result "''/''"]
    reserved nowrap fetch valid flat
  have "render (LayoutProvider
                 (layout_wrapPage ?opts (page_using_data (layout_useData ?opts)))
                 (member ?result ''props'')) (default_env ''/'') =
          Inl (Created DATA_UNAVAILABLE
                \<lparr>errorContext = ''useData'', message = data_unavailable_message,
                 location = Some ''/'', layoutName = Some (name ?opts)\<rparr>)"
    by blast
  with reserved fetch valid show ?thesis by (simp add: layoutKey_def)
qed

end
